theory Spec2Isabelle
  imports Complex_Main
begin

section \<open>Synthetic dental dataset scripts\<close>

text \<open>
  A shallow embedding of the two dataset generators of the repository:
  \<^verbatim>\<open>scripts/create_dental_dataset.py\<close> (one fixed box per image) and the class
  \<^verbatim>\<open>DentalDatasetGenerator\<close> of \<^verbatim>\<open>train_dental_yolo.py\<close> (one to four boxes per
  image), together with the pipeline driver of the latter.

  Conventions of the model.
  \<^item> A Python float is kept as the rational number it denotes (\<^typ>\<open>rat\<close>). The product
    of the split arithmetic, \<^verbatim>\<open>int(num_images * train_split)\<close>, is rounded as binary64
    arithmetic rounds it (to the nearest number, ties to the even significand); the draws
    of \<^verbatim>\<open>random.uniform\<close> and the six decimals of an annotation are taken exactly.
  \<^item> Python ints are \<^typ>\<open>int\<close>; \<^verbatim>\<open>int(x)\<close> on a float truncates towards zero.
  \<^item> The global state of the \<^verbatim>\<open>random\<close> module is a stream of raw draws that is
    passed through every function using it; each call of the module's API takes one raw
    draw and maps it into the range the API documents.
  \<^item> Exceptions are values of the type \<open>error\<close>; a function that may raise returns
    \<open>error + 'a\<close>.
  \<^item> The file system is a map from paths to nodes.
\<close>

subsection \<open>Numbers and their text\<close>

definition py_int :: "rat \<Rightarrow> int" where
  \<comment> \<open>\<^verbatim>\<open>int(x)\<close> for a float \<open>x\<close>: truncation towards zero\<close>
  "py_int q = (if 0 \<le> q then \<lfloor>q\<rfloor> else \<lceil>q\<rceil>)"

definition digit_char :: "nat \<Rightarrow> char" where
  "digit_char d = ''0123456789'' ! d"

fun str_nat :: "nat \<Rightarrow> string" where
  "str_nat n = (if n < 10 then [digit_char n] else str_nat (n div 10) @ [digit_char (n mod 10)])"

declare str_nat.simps [simp del]

definition str_int :: "int \<Rightarrow> string" where
  \<comment> \<open>\<^verbatim>\<open>str(i)\<close>, which is also what \<^verbatim>\<open>{i}\<close> gives in an f-string\<close>
  "str_int i = (if i < 0 then ''-'' @ str_nat (nat (- i)) else str_nat (nat i))"

definition zero_pad :: "nat \<Rightarrow> string \<Rightarrow> string" where
  "zero_pad w s = replicate (w - length s) (CHR ''0'') @ s"

definition fmt_04d :: "nat \<Rightarrow> string" where
  \<comment> \<open>\<^verbatim>\<open>{i:04d}\<close> for the non-negative loop index \<open>i\<close>\<close>
  "fmt_04d i = zero_pad 4 (str_nat i)"

definition round_half_even :: "rat \<Rightarrow> int" where
  "round_half_even q =
     (let f = \<lfloor>q\<rfloor>; r = q - of_int f
      in if r < 1 / 2 then f else if 1 / 2 < r then f + 1 else if even f then f else f + 1)"

definition pow2 :: "int \<Rightarrow> rat" where
  "pow2 e = (if 0 \<le> e then 2 ^ nat e else 1 / 2 ^ nat (- e))"

fun bit_length :: "nat \<Rightarrow> nat" where
  \<comment> \<open>\<^verbatim>\<open>n.bit_length()\<close>\<close>
  "bit_length n = (if n = 0 then 0 else Suc (bit_length (n div 2)))"

declare bit_length.simps [simp del]

definition float_exponent :: "rat \<Rightarrow> int" where
  \<comment> \<open>the binary exponent of a float: \<open>e\<close> with \<open>2\<^sup>e \<le> \<bar>q\<bar> < 2\<^sup>e\<^sup>+\<^sup>1\<close>, and \<open>-1022\<close> for
      the numbers below \<open>2\<^sup>-\<^sup>1\<^sup>0\<^sup>2\<^sup>2\<close>, which share the exponent of the subnormal numbers\<close>
  "float_exponent q =
     max (- 1022)
       (if 1 \<le> \<bar>q\<bar> then int (bit_length (nat \<lfloor>\<bar>q\<bar>\<rfloor>)) - 1
        else - int (bit_length (nat (\<lceil>1 / \<bar>q\<bar>\<rceil> - 1))))"

definition float_round :: "rat \<Rightarrow> rat option" where
  \<comment> \<open>the binary64 number nearest to \<open>q\<close>, ties to the even significand of 53 bits;
      \<open>None\<close> is an infinity\<close>
  "float_round q =
     (let ulp = pow2 (float_exponent q - 52);
          r = of_int (round_half_even (q / ulp)) * ulp
      in if \<bar>r\<bar> < 2 ^ 1024 then Some r else None)"

definition micro :: "rat \<Rightarrow> int" where
  \<comment> \<open>the value printed by \<^verbatim>\<open>{x:.6f}\<close>, in units of \<open>10\<^sup>-\<^sup>6\<close>\<close>
  "micro q = round_half_even (q * 1000000)"

definition fmt_6f :: "rat \<Rightarrow> string" where
  \<comment> \<open>\<^verbatim>\<open>{x:.6f}\<close>\<close>
  "fmt_6f q =
     (let m = nat (micro \<bar>q\<bar>)
      in (if q < 0 then ''-'' else []) @ str_nat (m div 1000000) @ ''.'' @
         zero_pad 6 (str_nat (m mod 1000000)))"

subsection \<open>The random module\<close>

type_synonym rng = "nat \<Rightarrow> nat"

definition next_raw :: "rng \<Rightarrow> nat \<times> rng" where
  "next_raw g = (g 0, \<lambda>i. g (Suc i))"

definition random_random :: "rng \<Rightarrow> rat \<times> rng" where
  \<comment> \<open>\<^verbatim>\<open>random.random()\<close>: a multiple of \<open>2\<^sup>-\<^sup>5\<^sup>3\<close> in \<open>[0, 1)\<close>\<close>
  "random_random g = (case next_raw g of (r, g') \<Rightarrow> (of_nat (r mod 2 ^ 53) / 2 ^ 53, g'))"

definition random_uniform :: "rat \<Rightarrow> rat \<Rightarrow> rng \<Rightarrow> rat \<times> rng" where
  \<comment> \<open>\<^verbatim>\<open>random.uniform(a, b)\<close> is \<^verbatim>\<open>a + (b - a) * random()\<close>\<close>
  "random_uniform a b g = (case random_random g of (u, g') \<Rightarrow> (a + (b - a) * u, g'))"

definition randbelow :: "nat \<Rightarrow> rng \<Rightarrow> nat \<times> rng" where
  "randbelow n g = (case next_raw g of (r, g') \<Rightarrow> (r mod n, g'))"

definition random_randint :: "int \<Rightarrow> int \<Rightarrow> rng \<Rightarrow> int \<times> rng" where
  \<comment> \<open>\<^verbatim>\<open>random.randint(a, b)\<close> with \<open>a \<le> b\<close>, both ends included\<close>
  "random_randint a b g = (case randbelow (nat (b - a + 1)) g of (k, g') \<Rightarrow> (a + int k, g'))"

definition random_choice :: "'a list \<Rightarrow> rng \<Rightarrow> 'a \<times> rng" where
  \<comment> \<open>\<^verbatim>\<open>random.choice(seq)\<close> on a non-empty sequence\<close>
  "random_choice xs g = (case randbelow (length xs) g of (k, g') \<Rightarrow> (xs ! k, g'))"

subsection \<open>Annotations\<close>

record annotation =
  class_id :: int
  x_center :: rat
  y_center :: rat
  box_width :: rat
  box_height :: rat

definition render_annotation :: "annotation \<Rightarrow> string" where
  \<comment> \<open>\<^verbatim>\<open>f"{class_id} {x_center:.6f} {y_center:.6f} {width:.6f} {height:.6f}"\<close>\<close>
  "render_annotation a =
     str_int (class_id a) @ '' '' @ fmt_6f (x_center a) @ '' '' @ fmt_6f (y_center a) @ '' '' @
     fmt_6f (box_width a) @ '' '' @ fmt_6f (box_height a)"

subsection \<open>create_dental_dataset.py: the annotation of the fixed-box generator\<close>

definition annotation_box :: "string \<Rightarrow> int \<Rightarrow> rng \<Rightarrow> annotation \<times> rng" where
  \<comment> \<open>lines 119 to 136 of \<^verbatim>\<open>create_annotation\<close>: the box before it is printed\<close>
  "annotation_box condition cid g =
     (let x0 = 1 / 2; y0 = 9 / 20; w0 = 3 / 5; h0 = 3 / 10;
          (x1, w1, h1, g') =
            (if condition = ''misaligned'' then
               (case random_uniform (- (1 / 10)) (1 / 10) g of (dx, ga) \<Rightarrow>
                (case random_uniform (- (1 / 20)) (1 / 20) ga of (dw, gb) \<Rightarrow>
                   (x0 + dx, w0 + dw, h0, gb)))
             else if condition = ''chipped'' then
               (case random_uniform (- (1 / 20)) (1 / 20) g of (dh, ga) \<Rightarrow>
                  (x0, w0, h0 + dh, ga))
             else (x0, w0, h0, g))
      in (\<lparr>class_id = cid,
           x_center = max 0 (min 1 x1),
           y_center = max 0 (min 1 y0),
           box_width = max (1 / 10) (min (4 / 5) w1),
           box_height = max (1 / 10) (min (1 / 2) h1)\<rparr>, g'))"

definition create_annotation :: "string \<Rightarrow> string \<Rightarrow> int \<Rightarrow> rng \<Rightarrow> string \<times> rng" where
  \<comment> \<open>\<^verbatim>\<open>create_annotation(image_path, condition, class_id)\<close>; the image size arguments
      keep their defaults at every call and are not read either\<close>
  "create_annotation image_path condition cid g =
     (case annotation_box condition cid g of (a, g') \<Rightarrow> (render_annotation a, g'))"

subsection \<open>Errors and the file system\<close>

type_synonym path = "string list"

datatype error =
    FileExistsError path
  | NotADirectoryError path
  | FileNotFoundError path
  | IsADirectoryError path
  | ValueError
  | OverflowError

datatype image =
    Cv2Image int int string "(int \<times> int \<times> int) list"
  | PilImage int int "(string \<times> int \<times> int \<times> int \<times> int) list"

record dataset_config =
  cfg_path :: path
  cfg_train :: string
  cfg_val :: string
  cfg_nc :: nat
  cfg_names :: "string list"

datatype content = Jpeg image | Text string | Yaml dataset_config

datatype node = Dir | File content

type_synonym filesystem = "path \<Rightarrow> node option"

definition is_dir :: "filesystem \<Rightarrow> path \<Rightarrow> bool" where
  \<comment> \<open>the empty path is the working directory\<close>
  "is_dir fs p = (p = [] \<or> fs p = Some Dir)"

fun mkdir_from :: "path \<Rightarrow> string list \<Rightarrow> filesystem \<Rightarrow> error + filesystem" where
  "mkdir_from pre [] fs = Inr fs"
| "mkdir_from pre (c # cs) fs =
     (case fs (pre @ [c]) of
        None \<Rightarrow> mkdir_from (pre @ [c]) cs (fs(pre @ [c] \<mapsto> Dir))
      | Some Dir \<Rightarrow> mkdir_from (pre @ [c]) cs fs
      | Some (File x) \<Rightarrow>
          Inl (if cs = [] then FileExistsError (pre @ [c]) else NotADirectoryError (pre @ [c])))"

definition mkdir :: "path \<Rightarrow> filesystem \<Rightarrow> error + filesystem" where
  \<comment> \<open>\<^verbatim>\<open>p.mkdir(parents=True, exist_ok=True)\<close>: every missing ancestor is created, an
      existing directory is accepted, a file in the way raises\<close>
  "mkdir p fs = mkdir_from [] p fs"

definition open_write :: "path \<Rightarrow> content \<Rightarrow> filesystem \<Rightarrow> error + filesystem" where
  \<comment> \<open>\<^verbatim>\<open>with open(p, 'w') as f: f.write(c)\<close>, and \<^verbatim>\<open>image.save(p)\<close> of PIL\<close>
  "open_write p c fs =
     (if p = [] then Inl (IsADirectoryError p)
      else if \<not> is_dir fs (butlast p) then
        Inl (case fs (butlast p) of
               Some (File x) \<Rightarrow> NotADirectoryError p
             | _ \<Rightarrow> FileNotFoundError p)
      else case fs p of
             Some Dir \<Rightarrow> Inl (IsADirectoryError p)
           | _ \<Rightarrow> Inr (fs(p \<mapsto> File c)))"

definition cv2_imwrite :: "path \<Rightarrow> image \<Rightarrow> filesystem \<Rightarrow> filesystem" where
  \<comment> \<open>\<^verbatim>\<open>cv2.imwrite(p, img)\<close> reports a failed write by returning \<^verbatim>\<open>False\<close>, which the
      script does not look at\<close>
  "cv2_imwrite p img fs = (case open_write p (Jpeg img) fs of Inl e \<Rightarrow> fs | Inr fs' \<Rightarrow> fs')"

fun str_path :: "path \<Rightarrow> string" where
  "str_path [] = ''.''"
| "str_path [c] = c"
| "str_path (c # cs) = c @ ''/'' @ str_path cs"

fun list_index :: "'a list \<Rightarrow> 'a \<Rightarrow> nat option" where
  \<comment> \<open>\<^verbatim>\<open>xs.index(x)\<close>; \<open>None\<close> stands for the \<^verbatim>\<open>ValueError\<close>\<close>
  "list_index [] x = None"
| "list_index (y # ys) x = (if y = x then Some 0 else map_option Suc (list_index ys x))"

fun for_each :: "(nat \<Rightarrow> 's \<Rightarrow> 'e + 's) \<Rightarrow> nat list \<Rightarrow> 's \<Rightarrow> 'e + 's" where
  \<comment> \<open>\<^verbatim>\<open>for i in range(n): body\<close>, left at the first exception\<close>
  "for_each body [] s = Inr s"
| "for_each body (i # is) s =
     (case body i s of Inl e \<Rightarrow> Inl e | Inr s' \<Rightarrow> for_each body is s')"

definition py_range :: "int \<Rightarrow> nat list" where
  \<comment> \<open>\<^verbatim>\<open>range(n)\<close>: empty when \<open>n\<close> is not positive\<close>
  "py_range n = [0..<nat n]"

subsection \<open>create_dental_dataset.py: images and the dataset\<close>

definition classes :: "string list" where
  "classes =
     [''cavity'', ''gingivitis'', ''discoloration'', ''plaque'', ''tartar'',
      ''dead_tooth'', ''chipped'', ''misaligned'', ''healthy_tooth'', ''gum_inflammation'']"

fun draw_teeth :: "string \<Rightarrow> nat list \<Rightarrow> rng \<Rightarrow> (int \<times> int \<times> int) list \<times> rng" where
  \<comment> \<open>the loop over the six teeth, at the default size of the image; of what it draws
      only the cavity spots are kept, since they are the only part of the picture that
      reads the random module\<close>
  "draw_teeth condition [] g = ([], g)"
| "draw_teeth condition (i # is) g =
     (let width = 416; height = 416;
          tooth_width = width div 8; tooth_height = height div 3;
          x = width div 4 + int i * tooth_width; y = height div 3
      in if condition = ''cavity'' then
           (case random_randint 5 (tooth_width - 15) g of (dx, g1) \<Rightarrow>
            (case random_randint 5 (tooth_height - 15) g1 of (dy, g2) \<Rightarrow>
             (case random_randint 3 8 g2 of (radius, g3) \<Rightarrow>
              (case draw_teeth condition is g3 of (spots, g4) \<Rightarrow>
                 ((x + dx, y + dy, radius) # spots, g4)))))
         else draw_teeth condition is g)"

definition create_dental_image :: "string \<Rightarrow> rng \<Rightarrow> image \<times> rng" where
  \<comment> \<open>\<^verbatim>\<open>create_dental_image(condition=condition)\<close>: the script gives no size at either
      call, so that \<^verbatim>\<open>width\<close> and \<^verbatim>\<open>height\<close> are their defaults, 416. The raster is kept
      as its size, its condition and its cavity spots; the pixel noise comes from numpy's
      own generator and is not part of the model\<close>
  "create_dental_image condition g =
     (case draw_teeth condition [0..<6] g of
        (spots, g') \<Rightarrow> (Cv2Image 416 416 condition spots, g'))"

definition sample_file :: "path \<Rightarrow> string \<Rightarrow> string \<Rightarrow> string \<Rightarrow> nat \<Rightarrow> path" where
  \<comment> \<open>\<^verbatim>\<open>output_path / kind / split / f"{split}_{i:04d}{ext}"\<close>\<close>
  "sample_file output_path kind split ext i =
     output_path @ [kind, split, split @ ''_'' @ fmt_04d i @ ext]"

definition write_sample ::
  "path \<Rightarrow> string \<Rightarrow> nat \<Rightarrow> rng \<times> filesystem \<Rightarrow> (error \<times> filesystem) + (rng \<times> filesystem)" where
  \<comment> \<open>the body of the two loops of \<^verbatim>\<open>create_dataset\<close>, which differ in the split name only\<close>
  "write_sample output_path split i s =
     (case s of (g, fs) \<Rightarrow>
      (case random_choice classes g of (condition, g1) \<Rightarrow>
       (case list_index classes condition of
          None \<Rightarrow> Inl (ValueError, fs)
        | Some cid \<Rightarrow>
           (case create_dental_image condition g1 of (img, g2) \<Rightarrow>
            (let img_path = sample_file output_path ''images'' split ''.jpg'' i;
                 fs1 = cv2_imwrite img_path img fs
             in (case create_annotation (str_path img_path) condition (int cid) g2 of
                   (annotation, g3) \<Rightarrow>
                   (case open_write (sample_file output_path ''labels'' split ''.txt'' i)
                           (Text annotation) fs1 of
                      Inl e \<Rightarrow> Inl (e, fs1)
                    | Inr fs2 \<Rightarrow> Inr (g3, fs2))))))))"

fun mkdirs :: "path list \<Rightarrow> filesystem \<Rightarrow> (error \<times> filesystem) + filesystem" where
  "mkdirs [] fs = Inr fs"
| "mkdirs (d # ds) fs = (case mkdir d fs of Inl e \<Rightarrow> Inl (e, fs) | Inr fs' \<Rightarrow> mkdirs ds fs')"

definition split_dirs :: "path \<Rightarrow> path list" where
  "split_dirs output_path =
     [output_path @ [''images'', ''train''], output_path @ [''images'', ''val''],
      output_path @ [''labels'', ''train''], output_path @ [''labels'', ''val'']]"

definition split_counts :: "int \<Rightarrow> rat \<Rightarrow> error + (int \<times> int)" where
  \<comment> \<open>\<^verbatim>\<open>num_train = int(num_images * train_split); num_val = num_images - num_train\<close>.
      \<^verbatim>\<open>train_split\<close> is a float: what the script holds is the binary64 number nearest to
      the number given, which is that number whenever it is one. The int is converted to a
      float, which raises when it is too large, and the product of the two floats is
      rounded; \<^verbatim>\<open>int\<close> raises on an infinity and on a nan\<close>
  "split_counts num_images train_split =
     (case float_round (of_int num_images) of
        None \<Rightarrow> Inl OverflowError
      | Some x \<Rightarrow>
         (case float_round train_split of
            None \<Rightarrow> Inl (if x = 0 then ValueError else OverflowError)
          | Some y \<Rightarrow>
             (case float_round (x * y) of
                None \<Rightarrow> Inl OverflowError
              | Some product \<Rightarrow>
                 (let num_train = py_int product
                  in Inr (num_train, num_images - num_train)))))"

definition make_config :: "path \<Rightarrow> string list \<Rightarrow> dataset_config" where
  \<comment> \<open>the dictionary dumped to \<^verbatim>\<open>dataset.yaml\<close>; the absolute path is kept relative\<close>
  "make_config output_path cls =
     \<lparr>cfg_path = output_path, cfg_train = ''images/train'', cfg_val = ''images/val'',
      cfg_nc = length cls, cfg_names = cls\<rparr>"

definition create_dataset ::
  "path \<Rightarrow> int \<Rightarrow> rat \<Rightarrow> rng \<times> filesystem \<Rightarrow> (error \<times> filesystem) + (rng \<times> filesystem)" where
  "create_dataset output_path num_images train_split s =
     (case s of (g, fs) \<Rightarrow>
      (case mkdirs (split_dirs output_path) fs of
         Inl e \<Rightarrow> Inl e
       | Inr fs1 \<Rightarrow>
          (case split_counts num_images train_split of
             Inl e \<Rightarrow> Inl (e, fs1)
           | Inr (num_train, num_val) \<Rightarrow>
              (case for_each (write_sample output_path ''train'') (py_range num_train) (g, fs1) of
                 Inl e \<Rightarrow> Inl e
               | Inr s2 \<Rightarrow>
                  (case for_each (write_sample output_path ''val'') (py_range num_val) s2 of
                     Inl e \<Rightarrow> Inl e
                   | Inr (g3, fs3) \<Rightarrow>
                      (case open_write (output_path @ [''dataset.yaml''])
                              (Yaml (make_config output_path classes)) fs3 of
                         Inl e \<Rightarrow> Inl (e, fs3)
                       | Inr fs4 \<Rightarrow> Inr (g3, fs4)))))))"

record run_result =
  exit_code :: int
  files :: filesystem
  messages :: "string list"


subsection \<open>train_dental_yolo.py: the multi-label generator\<close>

definition self_classes :: "string list" where
  \<comment> \<open>\<^verbatim>\<open>self.classes\<close> of \<^verbatim>\<open>DentalDatasetGenerator\<close>\<close>
  "self_classes =
     [''cavity'', ''gingivitis'', ''discoloration'', ''plaque'', ''tartar'',
      ''dead_tooth'', ''chipped'', ''misaligned'', ''healthy'', ''gum_inflammation'']"

fun sample_pool :: "'a list \<Rightarrow> nat \<Rightarrow> rng \<Rightarrow> 'a list \<times> rng" where
  \<comment> \<open>the selection loop of \<^verbatim>\<open>random.sample\<close> for a small population: the chosen item
      is replaced by the last item of the pool, which then shrinks by one\<close>
  "sample_pool pool 0 g = ([], g)"
| "sample_pool pool (Suc k) g =
     (case randbelow (length pool) g of (j, g1) \<Rightarrow>
      (case sample_pool (butlast (pool[j := last pool])) k g1 of (chosen, g2) \<Rightarrow>
         (pool ! j # chosen, g2)))"

definition random_sample :: "'a list \<Rightarrow> nat \<Rightarrow> rng \<Rightarrow> error + ('a list \<times> rng)" where
  \<comment> \<open>\<^verbatim>\<open>random.sample(population, k)\<close>\<close>
  "random_sample population k g =
     (if length population < k then Inl ValueError else Inr (sample_pool population k g))"

definition draw_condition ::
  "string \<Rightarrow> rat \<Rightarrow> rat \<Rightarrow> rat \<Rightarrow> rat \<Rightarrow> int \<Rightarrow> int \<Rightarrow> string \<times> int \<times> int \<times> int \<times> int" where
  \<comment> \<open>the pixel rectangle \<^verbatim>\<open>draw_condition\<close> computes; the shape and colour it is drawn
      with are looked up from the condition\<close>
  "draw_condition condition xc yc w h img_width img_height =
     (condition,
      py_int ((xc - w / 2) * of_int img_width), py_int ((yc - h / 2) * of_int img_height),
      py_int (w * of_int img_width), py_int (h * of_int img_height))"

record generator =
  output_dir :: path
  num_images :: int
  gen_classes :: "string list"

definition new_generator :: "path \<Rightarrow> int \<Rightarrow> generator" where
  \<comment> \<open>the attributes \<^verbatim>\<open>__init__\<close> assigns\<close>
  "new_generator dir n = \<lparr>output_dir = dir, num_images = n, gen_classes = self_classes\<rparr>"

fun annotate_conditions ::
  "generator \<Rightarrow> int \<Rightarrow> int \<Rightarrow> string list \<Rightarrow> rng \<Rightarrow>
   error + (((string \<times> int \<times> int \<times> int \<times> int) list \<times> annotation list) \<times> rng)" where
  \<comment> \<open>\<^verbatim>\<open>for i, condition in enumerate(conditions)\<close>: what is drawn and what is appended to
      \<^verbatim>\<open>annotations\<close>, both in the order of the loop\<close>
  "annotate_conditions self width height [] g = Inr (([], []), g)"
| "annotate_conditions self width height (condition # rest) g =
     (case random_uniform (1 / 5) (4 / 5) g of (xc, g1) \<Rightarrow>
      (case random_uniform (3 / 10) (7 / 10) g1 of (yc, g2) \<Rightarrow>
       (case random_uniform (1 / 10) (3 / 10) g2 of (w, g3) \<Rightarrow>
        (case random_uniform (1 / 10) (3 / 10) g3 of (h, g4) \<Rightarrow>
         (case list_index (gen_classes self) condition of
            None \<Rightarrow> Inl ValueError
          | Some cid \<Rightarrow>
             (case annotate_conditions self width height rest g4 of
                Inl e \<Rightarrow> Inl e
              | Inr ((shapes, anns), g5) \<Rightarrow>
                 Inr ((draw_condition condition xc yc w h width height # shapes,
                       \<lparr>class_id = int cid, x_center = xc, y_center = yc,
                        box_width = w, box_height = h\<rparr> # anns), g5)))))))"

definition draw_conditions :: "generator \<Rightarrow> rng \<Rightarrow> error + (string list \<times> rng)" where
  \<comment> \<open>\<^verbatim>\<open>num_conditions = random.randint(1, 4)\<close> and
      \<^verbatim>\<open>conditions = random.sample(self.classes, num_conditions)\<close>\<close>
  "draw_conditions self g =
     (case random_randint 1 4 g of (num_conditions, g1) \<Rightarrow>
        random_sample (gen_classes self) (nat num_conditions) g1)"

definition generate_boxes ::
  "generator \<Rightarrow> int \<Rightarrow> int \<Rightarrow> rng \<Rightarrow> error + ((image \<times> annotation list) \<times> rng)" where
  \<comment> \<open>\<^verbatim>\<open>generate_synthetic_dental_image\<close> up to the boxes, before they are printed;
      \<^verbatim>\<open>Image.new\<close> raises on a negative width or height, before anything is drawn\<close>
  "generate_boxes self width height g =
     (if width < 0 \<or> height < 0 then Inl ValueError
      else case draw_conditions self g of
             Inl e \<Rightarrow> Inl e
           | Inr (conditions, g2) \<Rightarrow>
              (case annotate_conditions self width height conditions g2 of
                 Inl e \<Rightarrow> Inl e
               | Inr ((shapes, anns), g3) \<Rightarrow> Inr ((PilImage width height shapes, anns), g3)))"

definition generate_synthetic_dental_image ::
  "generator \<Rightarrow> int \<Rightarrow> int \<Rightarrow> rng \<Rightarrow> error + ((image \<times> string list) \<times> rng)" where
  "generate_synthetic_dental_image self width height g =
     (case generate_boxes self width height g of
        Inl e \<Rightarrow> Inl e
      | Inr ((img, anns), g') \<Rightarrow> Inr ((img, map render_annotation anns), g'))"

fun join_lines :: "string list \<Rightarrow> string" where
  \<comment> \<open>\<^verbatim>\<open>'\n'.join(annotations)\<close>\<close>
  "join_lines [] = []"
| "join_lines [l] = l"
| "join_lines (l # ls) = l @ [CHR 0x0A] @ join_lines ls"

definition generate_sample ::
  "generator \<Rightarrow> string \<Rightarrow> nat \<Rightarrow> rng \<times> filesystem \<Rightarrow>
   (error \<times> filesystem) + (rng \<times> filesystem)" where
  \<comment> \<open>the body of the two loops of \<^verbatim>\<open>generate_dataset\<close>, which differ in the split name only\<close>
  "generate_sample self split i s =
     (case s of (g, fs) \<Rightarrow>
      (case generate_synthetic_dental_image self 416 416 g of
         Inl e \<Rightarrow> Inl (e, fs)
       | Inr ((img, annotations), g1) \<Rightarrow>
          (case open_write (sample_file (output_dir self) ''images'' split ''.jpg'' i)
                  (Jpeg img) fs of
             Inl e \<Rightarrow> Inl (e, fs)
           | Inr fs1 \<Rightarrow>
              (case open_write (sample_file (output_dir self) ''labels'' split ''.txt'' i)
                      (Text (join_lines annotations)) fs1 of
                 Inl e \<Rightarrow> Inl (e, fs1)
               | Inr fs2 \<Rightarrow> Inr (g1, fs2)))))"

definition init_generator ::
  "path \<Rightarrow> int \<Rightarrow> filesystem \<Rightarrow> (error \<times> filesystem) + (generator \<times> filesystem)" where
  \<comment> \<open>\<^verbatim>\<open>DentalDatasetGenerator(output_dir, num_images)\<close>, which ends with
      \<^verbatim>\<open>setup_directories\<close>\<close>
  "init_generator dir n fs =
     (case mkdirs (split_dirs dir) fs of
        Inl e \<Rightarrow> Inl e
      | Inr fs' \<Rightarrow> Inr (new_generator dir n, fs'))"

definition generate_dataset ::
  "generator \<Rightarrow> rng \<times> filesystem \<Rightarrow> (error \<times> filesystem) + (rng \<times> filesystem)" where
  "generate_dataset self s =
     (case split_counts (num_images self) (4 / 5) of
        Inl e \<Rightarrow> Inl (e, snd s)
      | Inr (train_count, val_count) \<Rightarrow>
         (case for_each (generate_sample self ''train'') (py_range train_count) s of
            Inl e \<Rightarrow> Inl e
          | Inr s1 \<Rightarrow> for_each (generate_sample self ''val'') (py_range val_count) s1))"

definition create_dataset_yaml :: "generator \<Rightarrow> filesystem \<Rightarrow> (error \<times> filesystem) + (path \<times> filesystem)" where
  "create_dataset_yaml self fs =
     (case open_write (output_dir self @ [''dataset.yaml''])
             (Yaml (make_config (output_dir self) (gen_classes self))) fs of
        Inl e \<Rightarrow> Inl (e, fs)
      | Inr fs' \<Rightarrow> Inr (output_dir self @ [''dataset.yaml''], fs'))"

subsection \<open>train_dental_yolo.py: training, conversion and the pipeline\<close>

text \<open>
  The detection library, the conversion it performs and the two file operations that
  follow it are outside the repository. A call into them either returns or raises an
  exception with a message; which of the two happens is a parameter of the model, and
  every call made is recorded in the order of the calls.
\<close>

datatype 'a outcome = Raises string | Returns 'a

datatype lib_call =
    YoloLoad string
  | ModelTrain string int
  | ModelSave string
  | ModelExport
  | GlobMlpackage
  | ShutilMove string string

record library =
  on_load :: "string \<Rightarrow> unit outcome"
  on_train :: "(string \<times> string) list option outcome"
  on_save :: "string \<Rightarrow> unit outcome"
  on_export :: "unit outcome"
  on_glob :: "string list outcome"
  on_move :: "string \<Rightarrow> string \<Rightarrow> unit outcome"

record stage_result =
  ok :: bool
  printed :: "string list"
  calls :: "lib_call list"

text \<open>The pictographs the scripts print, as their UTF-8 bytes.\<close>

definition rocket :: string where "rocket = [CHR 0xF0, CHR 0x9F, CHR 0x9A, CHR 0x80]"
definition check_mark :: string where "check_mark = [CHR 0xE2, CHR 0x9C, CHR 0x85]"
definition cross_mark :: string where "cross_mark = [CHR 0xE2, CHR 0x9D, CHR 0x8C]"
definition arrows :: string where "arrows = [CHR 0xF0, CHR 0x9F, CHR 0x94, CHR 0x84]"
definition tooth :: string where "tooth = [CHR 0xF0, CHR 0x9F, CHR 0xA6, CHR 0xB7]"
definition party :: string where "party = [CHR 0xF0, CHR 0x9F, CHR 0x8E, CHR 0x89]"
definition folder :: string where "folder = [CHR 0xF0, CHR 0x9F, CHR 0x93, CHR 0x81]"
definition robot :: string where "robot = [CHR 0xF0, CHR 0x9F, CHR 0xA4, CHR 0x96]"
definition phone :: string where "phone = [CHR 0xF0, CHR 0x9F, CHR 0x93, CHR 0xB1]"

definition train_yolo_model :: "string \<Rightarrow> string \<Rightarrow> int \<Rightarrow> string \<Rightarrow> library \<Rightarrow> stage_result" where
  "train_yolo_model dataset_path output_path epochs model_size lib =
     (let head =
            [rocket @ '' Starting YOLO training...'', ''Dataset: '' @ dataset_path,
             ''Output: '' @ output_path, ''Epochs: '' @ str_int epochs,
             ''Model: YOLOv8'' @ model_size];
          weights = ''yolov8'' @ model_size @ ''.pt'';
          failed = (\<lambda>e cs. \<lparr>ok = False,
                      printed = head @ [cross_mark @ '' Training failed: '' @ e], calls = cs\<rparr>)
      in case on_load lib weights of
           Raises e \<Rightarrow> failed e [YoloLoad weights]
         | Returns u \<Rightarrow>
            (case on_train lib of
               Raises e \<Rightarrow> failed e [YoloLoad weights, ModelTrain dataset_path epochs]
             | Returns results \<Rightarrow>
                (case on_save lib output_path of
                   Raises e \<Rightarrow>
                     failed e [YoloLoad weights, ModelTrain dataset_path epochs, ModelSave output_path]
                 | Returns u' \<Rightarrow>
                     \<lparr>ok = True,
                      printed = head @
                        [check_mark @ '' Training completed successfully!'',
                         ''Model saved to: '' @ output_path] @
                        (case results of
                           None \<Rightarrow> []
                         | Some d \<Rightarrow> ([CHR 0x0A] @ ''Training Results:'') #
                                     map (\<lambda>(k, v). ''  '' @ k @ '': '' @ v) d),
                      calls = [YoloLoad weights, ModelTrain dataset_path epochs,
                               ModelSave output_path]\<rparr>)))"

definition convert_to_coreml :: "string \<Rightarrow> string \<Rightarrow> library \<Rightarrow> stage_result" where
  "convert_to_coreml input_path output_path lib =
     (let head =
            [arrows @ '' Converting YOLO model to CoreML...'', ''Input: '' @ input_path,
             ''Output: '' @ output_path];
          failed = (\<lambda>e cs. \<lparr>ok = False,
                      printed = head @ [cross_mark @ '' CoreML conversion failed: '' @ e],
                      calls = cs\<rparr>)
      in case on_load lib input_path of
           Raises e \<Rightarrow> failed e [YoloLoad input_path]
         | Returns u \<Rightarrow>
            (case on_export lib of
               Raises e \<Rightarrow> failed e [YoloLoad input_path, ModelExport]
             | Returns u' \<Rightarrow>
                (case on_glob lib of
                   Raises e \<Rightarrow> failed e [YoloLoad input_path, ModelExport, GlobMlpackage]
                 | Returns [] \<Rightarrow>
                     \<lparr>ok = False,
                      printed = head @ [cross_mark @ '' CoreML file not found after export''],
                      calls = [YoloLoad input_path, ModelExport, GlobMlpackage]\<rparr>
                 | Returns (found # others) \<Rightarrow>
                    (case on_move lib found output_path of
                       Raises e \<Rightarrow>
                         failed e [YoloLoad input_path, ModelExport, GlobMlpackage,
                                   ShutilMove found output_path]
                     | Returns u'' \<Rightarrow>
                         \<lparr>ok = True,
                          printed = head @
                            [check_mark @ '' CoreML conversion successful!'',
                             ''CoreML model saved to: '' @ output_path],
                          calls = [YoloLoad input_path, ModelExport, GlobMlpackage,
                                   ShutilMove found output_path]\<rparr>))))"

definition generate_step ::
  "path \<Rightarrow> int \<Rightarrow> rng \<times> filesystem \<Rightarrow>
   (error \<times> filesystem) + (path \<times> rng \<times> filesystem)" where
  \<comment> \<open>step 1 of \<^verbatim>\<open>main\<close>: the generator is built, the dataset generated and the manifest
      written\<close>
  "generate_step dataset_dir n s =
     (case s of (g, fs) \<Rightarrow>
      (case init_generator dataset_dir n fs of
         Inl e \<Rightarrow> Inl e
       | Inr (self, fs1) \<Rightarrow>
          (case generate_dataset self (g, fs1) of
             Inl e \<Rightarrow> Inl e
           | Inr (g2, fs2) \<Rightarrow>
              (case create_dataset_yaml self fs2 of
                 Inl e \<Rightarrow> Inl e
               | Inr (dataset_yaml, fs3) \<Rightarrow> Inr (dataset_yaml, g2, fs3)))))"

record pipeline_result = run_result +
  lib_calls :: "lib_call list"

definition yolo_main ::
  "path \<Rightarrow> int \<Rightarrow> int \<Rightarrow> string \<Rightarrow> string \<Rightarrow> string \<Rightarrow> library \<Rightarrow> rng \<times> filesystem \<Rightarrow>
   pipeline_result" where
  \<comment> \<open>\<^verbatim>\<open>main\<close> of \<^verbatim>\<open>train_dental_yolo.py\<close> after the arguments are parsed, with
      \<^verbatim>\<open>sys.exit(main())\<close>; the progress lines of the generator are not kept, and an
      uncaught exception of the generator ends the process with status 1\<close>
  "yolo_main dataset_dir n epochs model_size output_model output_coreml lib s =
     (let banner =
            [tooth @ '' Dental YOLO Training Pipeline'', replicate 50 (CHR ''=''),
             [CHR 0x0A] @ ''1. Generating synthetic dental dataset...''];
          crashed = (\<lambda>fs. \<lparr>exit_code = 1, files = fs, messages = banner, lib_calls = []\<rparr>)
      in (case generate_step dataset_dir n s of
            Inl (e, fs') \<Rightarrow> crashed fs'
          | Inr (dataset_yaml, g3, fs3) \<Rightarrow>
                     (let t = train_yolo_model (str_path dataset_yaml) output_model epochs
                                model_size lib;
                          out2 = banner @ [[CHR 0x0A] @ ''2. Training YOLO model...''] @ printed t
                      in if \<not> ok t then
                           \<lparr>exit_code = 1, files = fs3,
                            messages = out2 @ [cross_mark @ '' Training failed. Exiting.''],
                            lib_calls = calls t\<rparr>
                         else
                           (let c = convert_to_coreml output_model output_coreml lib;
                                out3 = out2 @ [[CHR 0x0A] @ ''3. Converting to CoreML...''] @
                                       printed c
                            in if \<not> ok c then
                                 \<lparr>exit_code = 1, files = fs3,
                                  messages = out3 @
                                    [cross_mark @ '' CoreML conversion failed. Exiting.''],
                                  lib_calls = calls t @ calls c\<rparr>
                               else
                                 \<lparr>exit_code = 0, files = fs3,
                                  messages = out3 @
                                    [[CHR 0x0A] @ party @
                                       '' Training pipeline completed successfully!'',
                                     folder @ '' Dataset: '' @ str_path dataset_dir,
                                     robot @ '' YOLO Model: '' @ output_model,
                                     phone @ '' CoreML Model: '' @ output_coreml,
                                     [CHR 0x0A] @ ''Next steps:'',
                                     ''1. Copy '' @ output_coreml @
                                       '' to DentalAI/Resources/Models/'',
                                     ''2. Build and run the iOS app'',
                                     ''3. Test with real dental images''],
                                  lib_calls = calls t @ calls c\<rparr>))))"

subsection \<open>Notions used in the statements\<close>

text \<open>
  A value lies in a range of the annotation format when it does so both as the number the
  generator computed and as the six decimals that are printed; the bounds are given in
  units of \<open>10\<^sup>-\<^sup>6\<close>.
\<close>

definition ranged :: "int \<Rightarrow> int \<Rightarrow> rat \<Rightarrow> bool" where
  "ranged lo hi q =
     (of_int lo / 1000000 \<le> q \<and> q \<le> of_int hi / 1000000 \<and> lo \<le> micro q \<and> micro q \<le> hi)"

definition box_in_range :: "annotation \<Rightarrow> bool" where
  "box_in_range a =
     (ranged 0 1000000 (x_center a) \<and> ranged 0 1000000 (y_center a) \<and>
      ranged 100000 800000 (box_width a) \<and> ranged 100000 800000 (box_height a))"

definition well_formed :: "nat \<Rightarrow> annotation \<Rightarrow> bool" where
  "well_formed class_count a =
     (0 \<le> class_id a \<and> class_id a < int class_count \<and> box_in_range a)"

definition clamped :: "annotation \<Rightarrow> bool" where
  \<comment> \<open>clamping the values into the ranges of the format leaves them as they are\<close>
  "clamped a =
     (max 0 (min 1 (x_center a)) = x_center a \<and> max 0 (min 1 (y_center a)) = y_center a \<and>
      max (1 / 10) (min (4 / 5) (box_width a)) = box_width a \<and>
      max (1 / 10) (min (4 / 5) (box_height a)) = box_height a)"

definition sampled :: "annotation \<Rightarrow> bool" where
  "sampled a =
     (ranged 200000 800000 (x_center a) \<and> ranged 300000 700000 (y_center a) \<and>
      ranged 100000 300000 (box_width a) \<and> ranged 100000 300000 (box_height a))"

definition box_edges_inside :: "annotation \<Rightarrow> bool" where
  "box_edges_inside a =
     (1 / 20 \<le> x_center a - box_width a / 2 \<and> x_center a + box_width a / 2 \<le> 19 / 20 \<and>
      3 / 20 \<le> y_center a - box_height a / 2 \<and> y_center a + box_height a / 2 \<le> 17 / 20 \<and>
      100000 \<le> 2 * micro (x_center a) - micro (box_width a) \<and>
      2 * micro (x_center a) + micro (box_width a) \<le> 1900000 \<and>
      300000 \<le> 2 * micro (y_center a) - micro (box_height a) \<and>
      2 * micro (y_center a) + micro (box_height a) \<le> 1700000)"

text \<open>The lines of a label file: the text split at every newline character.\<close>

fun split_lines :: "string \<Rightarrow> string list" where
  "split_lines [] = [[]]"
| "split_lines (c # cs) =
     (if c = CHR 0x0A then [] # split_lines cs
      else (case split_lines cs of [] \<Rightarrow> [[c]] | l # ls \<Rightarrow> (c # l) # ls))"

definition plain :: "string \<Rightarrow> bool" where
  "plain s = (CHR 0x0A \<notin> set s)"

text \<open>
  The exception that leaves the \<^verbatim>\<open>try\<close> block of a stage: the one raised by the first
  library call that raises, if any does.
\<close>

definition train_exception :: "string \<Rightarrow> string \<Rightarrow> library \<Rightarrow> string option" where
  "train_exception model_size output_path lib =
     (case on_load lib (''yolov8'' @ model_size @ ''.pt'') of
        Raises e \<Rightarrow> Some e
      | Returns u \<Rightarrow>
         (case on_train lib of
            Raises e \<Rightarrow> Some e
          | Returns r \<Rightarrow> (case on_save lib output_path of Raises e \<Rightarrow> Some e | Returns u' \<Rightarrow> None)))"

definition convert_exception :: "string \<Rightarrow> string \<Rightarrow> library \<Rightarrow> string option" where
  "convert_exception input_path output_path lib =
     (case on_load lib input_path of
        Raises e \<Rightarrow> Some e
      | Returns u \<Rightarrow>
         (case on_export lib of
            Raises e \<Rightarrow> Some e
          | Returns u' \<Rightarrow>
             (case on_glob lib of
                Raises e \<Rightarrow> Some e
              | Returns [] \<Rightarrow> None
              | Returns (found # others) \<Rightarrow>
                 (case on_move lib found output_path of Raises e \<Rightarrow> Some e | Returns u'' \<Rightarrow> None))))"

text \<open>A library whose training call raises.\<close>

definition failing_library :: library where
  "failing_library =
     \<lparr>on_load = (\<lambda>p. Returns ()), on_train = Raises ''out of memory'',
      on_save = (\<lambda>p. Returns ()), on_export = Returns (), on_glob = Returns [],
      on_move = (\<lambda>a b. Returns ())\<rparr>"








definition file_name :: "string \<Rightarrow> string \<Rightarrow> nat \<Rightarrow> string" where
  "file_name split ext i = split @ ''_'' @ fmt_04d i @ ext"

definition dataset_run ::
  "path \<Rightarrow> (string \<Rightarrow> nat \<Rightarrow> rng \<times> filesystem \<Rightarrow> (error \<times> filesystem) + (rng \<times> filesystem)) \<Rightarrow>
   nat \<Rightarrow> nat \<Rightarrow> string list \<Rightarrow> rng \<times> filesystem \<Rightarrow> rng \<times> filesystem \<Rightarrow> bool" where
  "dataset_run out body nt nv cls s s' =
     (\<exists>fs1 s2 fs3.
        mkdirs (split_dirs out) (snd s) = Inr fs1 \<and>
        for_each (body ''train'') [0..<nt] (fst s, fs1) = Inr s2 \<and>
        for_each (body ''val'') [0..<nv] s2 = Inr (fst s', fs3) \<and>
        open_write (out @ [''dataset.yaml'']) (Yaml (make_config out cls)) fs3 = Inr (snd s'))"



definition made_dirs :: filesystem where
  "made_dirs =
     [[''d''] \<mapsto> Dir, [''d'', ''images''] \<mapsto> Dir, [''d'', ''images'', ''train''] \<mapsto> Dir,
      [''d'', ''images'', ''val''] \<mapsto> Dir, [''d'', ''labels''] \<mapsto> Dir,
      [''d'', ''labels'', ''train''] \<mapsto> Dir, [''d'', ''labels'', ''val''] \<mapsto> Dir]"

definition cavity_image :: image where
  "cavity_image = Cv2Image 416 416 ''cavity''
     [(109, 143, 3), (161, 143, 3), (213, 143, 3), (265, 143, 3), (317, 143, 3), (369, 143, 3)]"

definition fixed_dataset :: filesystem where
  "fixed_dataset =
     made_dirs
       ([''d'', ''images'', ''train'', ''train_0000.jpg''] \<mapsto> File (Jpeg cavity_image),
        [''d'', ''labels'', ''train'', ''train_0000.txt''] \<mapsto>
          File (Text ''0 0.500000 0.450000 0.600000 0.300000''),
        [''d'', ''images'', ''val'', ''val_0000.jpg''] \<mapsto> File (Jpeg cavity_image),
        [''d'', ''labels'', ''val'', ''val_0000.txt''] \<mapsto>
          File (Text ''0 0.500000 0.450000 0.600000 0.300000''),
        [''d'', ''dataset.yaml''] \<mapsto> File (Yaml (make_config [''d''] classes)))"

definition multi_dataset :: filesystem where
  "multi_dataset =
     made_dirs
       ([''d'', ''images'', ''train'', ''train_0000.jpg''] \<mapsto>
          File (Jpeg (PilImage 416 416 [(''cavity'', 62, 104, 41, 41)])),
        [''d'', ''labels'', ''train'', ''train_0000.txt''] \<mapsto>
          File (Text ''0 0.200000 0.300000 0.100000 0.100000''),
        [''d'', ''images'', ''val'', ''val_0000.jpg''] \<mapsto>
          File (Jpeg (PilImage 416 416 [(''cavity'', 62, 104, 41, 41)])),
        [''d'', ''labels'', ''val'', ''val_0000.txt''] \<mapsto>
          File (Text ''0 0.200000 0.300000 0.100000 0.100000''),
        [''d'', ''dataset.yaml''] \<mapsto> File (Yaml (make_config [''d''] self_classes)))"










section \<open>Properties\<close>

lemma str_nat_small: "n < 10 \<Longrightarrow> str_nat n = [digit_char n]"
  by (subst str_nat.simps) simp

lemma str_nat_big: "10 \<le> n \<Longrightarrow> str_nat n = str_nat (n div 10) @ [digit_char (n mod 10)]"
  by (subst str_nat.simps) simp

lemmas eval_text = str_nat_small str_nat_big digit_char_def zero_pad_def str_int_def fmt_04d_def

lemmas eval_6f = fmt_6f_def micro_def round_half_even_def eval_text

lemma fmt_6f_half: "fmt_6f (1 / 2) = ''0.500000''"
  by (simp add: eval_6f)

lemma fmt_6f_y: "fmt_6f (9 / 20) = ''0.450000''"
  by (simp add: eval_6f)

lemma fmt_6f_w: "fmt_6f (3 / 5) = ''0.600000''"
  by (simp add: eval_6f)

lemma fmt_6f_h: "fmt_6f (3 / 10) = ''0.300000''"
  by (simp add: eval_6f)

subsection \<open>Rounding and random draws\<close>

lemma random_random_range:
  "random_random g = (u, g') \<Longrightarrow> 0 \<le> u \<and> u < 1"
proof -
  assume a: "random_random g = (u, g')"
  have "(g 0 mod 2 ^ 53) < (2::nat) ^ 53" by simp
  then have "(of_nat (g 0 mod 2 ^ 53) :: rat) < of_nat (2 ^ 53)"
    using of_nat_less_iff by blast
  then have "(of_nat (g 0 mod 2 ^ 53) :: rat) / 2 ^ 53 < 1" by simp
  with a show ?thesis by (auto simp: random_random_def next_raw_def)
qed

lemma random_uniform_range:
  assumes "random_uniform a b g = (x, g')" and "a \<le> b"
  shows "a \<le> x \<and> x \<le> b"
proof -
  obtain u where u: "random_random g = (u, g')" and x: "x = a + (b - a) * u"
    using assms(1) by (auto simp: random_uniform_def split: prod.splits)
  from random_random_range [OF u] have "0 \<le> u" "u \<le> 1" by auto
  moreover have "0 \<le> b - a" using assms(2) by simp
  ultimately have "0 \<le> (b - a) * u" "(b - a) * u \<le> (b - a) * 1"
    by (simp_all add: mult_left_mono del: mult_1_right mult.right_neutral)
  with x show ?thesis by simp
qed

lemma round_half_even_lower: "of_int k \<le> q \<Longrightarrow> k \<le> round_half_even q"
proof -
  assume "of_int k \<le> q"
  then have "k \<le> \<lfloor>q\<rfloor>" by (simp add: le_floor_iff)
  then show ?thesis by (auto simp: round_half_even_def Let_def)
qed

lemma round_half_even_upper: "q \<le> of_int k \<Longrightarrow> round_half_even q \<le> k"
proof -
  assume a: "q \<le> of_int k"
  have f: "\<lfloor>q\<rfloor> \<le> k" using a by (simp add: floor_le_iff)
  show ?thesis
  proof (cases "q = of_int \<lfloor>q\<rfloor>")
    case True
    then have "q - of_int \<lfloor>q\<rfloor> = 0" by simp
    then show ?thesis using f by (simp add: round_half_even_def Let_def)
  next
    case False
    then have "of_int \<lfloor>q\<rfloor> < q" using of_int_floor_le [of q] by linarith
    then have "\<lfloor>q\<rfloor> < k" using a by linarith
    then show ?thesis by (auto simp: round_half_even_def Let_def)
  qed
qed

lemma micro_bounds:
  assumes "of_int lo / 1000000 \<le> q" and "q \<le> of_int hi / 1000000"
  shows "lo \<le> micro q \<and> micro q \<le> hi"
proof -
  have "of_int lo \<le> q * 1000000" using assms(1) by (simp add: field_simps)
  moreover have "q * 1000000 \<le> of_int hi" using assms(2) by (simp add: field_simps)
  ultimately show ?thesis
    unfolding micro_def by (simp add: round_half_even_lower round_half_even_upper)
qed

lemma next_raw_const [simp]: "next_raw (\<lambda>i. c) = (c, \<lambda>i. c)"
  by (simp add: next_raw_def)

lemmas eval_random = random_random_def random_uniform_def randbelow_def random_randint_def
  random_choice_def

lemma floor_numeral_div: "\<lfloor>numeral a / numeral b :: rat\<rfloor> = numeral a div numeral b"
  using floor_divide_of_int_eq [of "numeral a" "numeral b", where ?'a = rat] by simp

lemma floor_minus_numeral_div:
  "\<lfloor>- (numeral a / numeral b) :: rat\<rfloor> = (- numeral a) div numeral b"
  using floor_divide_of_int_eq [of "- numeral a" "numeral b", where ?'a = rat] by simp

lemma ceiling_numeral_div: "\<lceil>numeral a / numeral b :: rat\<rceil> = - ((- numeral a) div numeral b)"
  using ceiling_divide_eq_div [of "numeral a" "numeral b", where ?'a = rat] by simp

lemma ceiling_minus_numeral_div:
  "\<lceil>- (numeral a / numeral b) :: rat\<rceil> = - (numeral a div numeral b)"
  using ceiling_divide_eq_div [of "- numeral a" "numeral b", where ?'a = rat] by simp

subsection \<open>Rounding to a float\<close>

lemma bit_length_0 [simp]: "bit_length 0 = 0"
  by (simp add: bit_length.simps)

lemma bit_length_pos: "0 < n \<Longrightarrow> bit_length n = Suc (bit_length (n div 2))"
  by (subst bit_length.simps) simp

lemmas eval_float = float_round_def float_exponent_def pow2_def round_half_even_def Let_def
  bit_length_pos floor_numeral_div floor_minus_numeral_div ceiling_numeral_div








lemma up6: "[0..<6] = [0, 1, 2, 3, 4, 5]"
  by (simp add: upt_conv_Cons)

lemma new_generator_simps [simp]:
  "gen_classes (new_generator dir n) = self_classes"
  "output_dir (new_generator dir n) = dir"
  "num_images (new_generator dir n) = n"
  by (simp_all add: new_generator_def)

subsection \<open>Lists, sampling and the boxes of the multi-label generator\<close>

lemma rangedI: "of_int lo / 1000000 \<le> q \<Longrightarrow> q \<le> of_int hi / 1000000 \<Longrightarrow> ranged lo hi q"
  unfolding ranged_def using micro_bounds by blast

lemma ranged_mono: "ranged lo hi q \<Longrightarrow> lo' \<le> lo \<Longrightarrow> hi \<le> hi' \<Longrightarrow> ranged lo' hi' q"
proof -
  assume a: "ranged lo hi q" "lo' \<le> lo" "hi \<le> hi'"
  have "(of_int lo' :: rat) \<le> of_int lo" "(of_int hi :: rat) \<le> of_int hi'" using a by simp_all
  then have "(of_int lo' :: rat) / 1000000 \<le> of_int lo / 1000000"
    "(of_int hi :: rat) / 1000000 \<le> of_int hi' / 1000000"
    by (simp_all add: divide_right_mono)
  then show ?thesis using a unfolding ranged_def by linarith
qed

lemma list_index_Some: "list_index xs x = Some i \<Longrightarrow> i < length xs \<and> xs ! i = x"
  by (induction xs arbitrary: i) (auto split: if_splits)

lemma list_index_member: "x \<in> set xs \<Longrightarrow> \<exists>i. list_index xs x = Some i"
  by (induction xs) auto

lemma list_index_nth: "distinct xs \<Longrightarrow> i < length xs \<Longrightarrow> list_index xs (xs ! i) = Some i"
proof (induction xs arbitrary: i)
  case Nil
  then show ?case by simp
next
  case (Cons y ys)
  then show ?case by (cases i) auto
qed

lemma sample_pool_props:
  "k \<le> length pool \<Longrightarrow> sample_pool pool k g = (chosen, g') \<Longrightarrow>
   length chosen = k \<and> set chosen \<subseteq> set pool"
proof (induction k arbitrary: pool g chosen g')
  case 0
  then show ?case by simp
next
  case (Suc k)
  let ?j = "fst (randbelow (length pool) g)"
  let ?g1 = "snd (randbelow (length pool) g)"
  let ?pool' = "butlast (pool[?j := last pool])"
  obtain rest g2 where rest: "sample_pool ?pool' k ?g1 = (rest, g2)" by fastforce
  have ne: "pool \<noteq> []" using Suc.prems(1) by auto
  have j: "?j < length pool" using ne by (simp add: randbelow_def next_raw_def)
  have chosen: "chosen = pool ! ?j # rest"
    using Suc.prems(2) rest by (simp add: case_prod_unfold)
  have len: "k \<le> length ?pool'" using Suc.prems(1) by simp
  have sub: "set ?pool' \<subseteq> set pool"
  proof
    fix x assume "x \<in> set ?pool'"
    then have "x \<in> set (pool[?j := last pool])" by (rule in_set_butlastD)
    then have "x \<in> insert (last pool) (set pool)"
      using set_update_subset_insert by fastforce
    then show "x \<in> set pool" using ne by auto
  qed
  from Suc.IH [OF len rest] have "length rest = k" "set rest \<subseteq> set ?pool'" by auto
  then show ?case using chosen sub j by auto
qed

lemma draw_conditions_props:
  assumes "4 \<le> length (gen_classes self)"
  shows "\<exists>conditions g'. draw_conditions self g = Inr (conditions, g') \<and>
     1 \<le> length conditions \<and> length conditions \<le> 4 \<and>
     set conditions \<subseteq> set (gen_classes self)"
proof -
  let ?n = "fst (random_randint 1 4 g)"
  let ?g1 = "snd (random_randint 1 4 g)"
  have n: "1 \<le> ?n \<and> ?n \<le> 4"
    by (simp add: random_randint_def randbelow_def next_raw_def)
  obtain chosen g2 where sp: "sample_pool (gen_classes self) (nat ?n) ?g1 = (chosen, g2)"
    by fastforce
  have k: "nat ?n \<le> length (gen_classes self)" using n assms by linarith
  from sample_pool_props [OF k sp]
  have "length chosen = nat ?n" "set chosen \<subseteq> set (gen_classes self)"
    by auto
  moreover have "draw_conditions self g = Inr (chosen, g2)"
    using sp k by (simp add: draw_conditions_def random_sample_def case_prod_unfold)
  ultimately show ?thesis using n by auto
qed

lemma annotate_conditions_props:
  "set conditions \<subseteq> set (gen_classes self) \<Longrightarrow>
   \<exists>shapes anns g'. annotate_conditions self w h conditions g = Inr ((shapes, anns), g') \<and>
      map fst shapes = conditions \<and>
      map (\<lambda>a. gen_classes self ! nat (class_id a)) anns = conditions \<and>
      (\<forall>a \<in> set anns. 0 \<le> class_id a \<and> class_id a < int (length (gen_classes self)) \<and>
         sampled a)"
proof (induction conditions arbitrary: g)
  case Nil
  then show ?case by simp
next
  case (Cons c cs)
  obtain xc g1 where x: "random_uniform (1 / 5) (4 / 5) g = (xc, g1)" by fastforce
  obtain yc g2 where y: "random_uniform (3 / 10) (7 / 10) g1 = (yc, g2)" by fastforce
  obtain bw g3 where bw: "random_uniform (1 / 10) (3 / 10) g2 = (bw, g3)" by fastforce
  obtain bh g4 where bh: "random_uniform (1 / 10) (3 / 10) g3 = (bh, g4)" by fastforce
  from Cons.prems obtain cid where cid: "list_index (gen_classes self) c = Some cid"
    using list_index_member [of c "gen_classes self"] by auto
  from Cons.prems have "set cs \<subseteq> set (gen_classes self)" by simp
  from Cons.IH [OF this, of g4] obtain shapes anns g5 where
    rec: "annotate_conditions self w h cs g4 = Inr ((shapes, anns), g5)" and
    len: "map fst shapes = cs" and
    ids: "map (\<lambda>a. gen_classes self ! nat (class_id a)) anns = cs" and
    ok: "\<forall>a \<in> set anns. 0 \<le> class_id a \<and> class_id a < int (length (gen_classes self)) \<and>
           sampled a"
    by blast
  let ?a = "\<lparr>class_id = int cid, x_center = xc, y_center = yc, box_width = bw, box_height = bh\<rparr>"
  have eq: "annotate_conditions self w h (c # cs) g =
      Inr ((draw_condition c xc yc bw bh w h # shapes, ?a # anns), g5)"
    using x y bw bh cid rec by simp
  have rx: "ranged 200000 800000 xc" using random_uniform_range [OF x] by (intro rangedI) simp_all
  have ry: "ranged 300000 700000 yc" using random_uniform_range [OF y] by (intro rangedI) simp_all
  have rw: "ranged 100000 300000 bw" using random_uniform_range [OF bw] by (intro rangedI) simp_all
  have rh: "ranged 100000 300000 bh" using random_uniform_range [OF bh] by (intro rangedI) simp_all
  have a: "0 \<le> class_id ?a \<and> class_id ?a < int (length (gen_classes self)) \<and> sampled ?a"
    using list_index_Some [OF cid] rx ry rw rh by (simp add: sampled_def)
  have nm: "gen_classes self ! nat (class_id ?a) = c" using list_index_Some [OF cid] by simp
  show ?case
    unfolding eq using len ids ok a nm by (auto simp: draw_condition_def)
qed

lemma sampled_box_in_range: "sampled a \<Longrightarrow> box_in_range a"
  unfolding sampled_def box_in_range_def by (auto intro: ranged_mono)

lemma box_in_range_clamped: "box_in_range a \<Longrightarrow> clamped a"
  unfolding box_in_range_def ranged_def clamped_def by simp

lemma generate_boxes_size:
  "generate_boxes self w h g = Inr r \<Longrightarrow> 0 \<le> w \<and> 0 \<le> h"
  by (auto simp: generate_boxes_def split: if_splits)

lemma generate_image_size:
  "generate_synthetic_dental_image self w h g = Inr r \<Longrightarrow> 0 \<le> w \<and> 0 \<le> h"
  using generate_boxes_size [of self w h g]
  by (auto simp: generate_synthetic_dental_image_def split: sum.splits)

lemma generate_boxes_props:
  assumes "4 \<le> length (gen_classes self)" and "0 \<le> w" and "0 \<le> h"
  shows "\<exists>conditions g1 shapes anns g'.
     draw_conditions self g = Inr (conditions, g1) \<and>
     1 \<le> length conditions \<and> length conditions \<le> 4 \<and>
     generate_boxes self w h g = Inr ((PilImage w h shapes, anns), g') \<and>
     map fst shapes = conditions \<and>
     map (\<lambda>a. gen_classes self ! nat (class_id a)) anns = conditions \<and>
     (\<forall>a \<in> set anns. 0 \<le> class_id a \<and> class_id a < int (length (gen_classes self)) \<and>
         sampled a)"
proof -
  from draw_conditions_props [OF assms(1), of g] obtain conditions g1 where
    d: "draw_conditions self g = Inr (conditions, g1)" and
    l: "1 \<le> length conditions" "length conditions \<le> 4" and
    s: "set conditions \<subseteq> set (gen_classes self)" by blast
  from annotate_conditions_props [OF s, of w h g1] obtain shapes anns g' where
    a: "annotate_conditions self w h conditions g1 = Inr ((shapes, anns), g')" and
    r: "map fst shapes = conditions"
       "map (\<lambda>a. gen_classes self ! nat (class_id a)) anns = conditions"
       "\<forall>a \<in> set anns. 0 \<le> class_id a \<and> class_id a < int (length (gen_classes self)) \<and>
          sampled a" by blast
  have "generate_boxes self w h g = Inr ((PilImage w h shapes, anns), g')"
    using d a assms(2,3) by (simp add: generate_boxes_def)
  then show ?thesis using d l r by blast
qed

subsection \<open>Lines of text\<close>

lemma plain_Nil [simp]: "plain []"
  by (simp add: plain_def)

lemma plain_Cons [simp]: "plain (c # s) \<longleftrightarrow> c \<noteq> CHR 0x0A \<and> plain s"
  by (auto simp: plain_def)

lemma plain_append [simp]: "plain (a @ b) \<longleftrightarrow> plain a \<and> plain b"
  by (auto simp: plain_def)

lemma split_lines_plain: "plain l \<Longrightarrow> split_lines (l @ CHR 0x0A # rest) = l # split_lines rest"
  by (induction l) auto

lemma split_lines_single: "plain l \<Longrightarrow> split_lines l = [l]"
  by (induction l) auto

lemma split_join_lines:
  "ls \<noteq> [] \<Longrightarrow> \<forall>l \<in> set ls. plain l \<Longrightarrow> split_lines (join_lines ls) = ls"
proof (induction ls rule: join_lines.induct)
  case 1
  then show ?case by simp
next
  case (2 l)
  then show ?case by (simp add: split_lines_single)
next
  case (3 l v va)
  then show ?case by (simp add: split_lines_plain)
qed

lemma digit_char_plain: "d < 10 \<Longrightarrow> digit_char d \<noteq> CHR 0x0A"
proof -
  assume "d < 10"
  then have "d \<in> {0, 1, 2, 3, 4, 5, 6, 7, 8, 9}" by auto
  then show ?thesis by (auto simp: digit_char_def)
qed

lemma str_nat_plain: "plain (str_nat n)"
proof (induction n rule: str_nat.induct)
  case (1 n)
  show ?case
  proof (cases "n < 10")
    case True
    then show ?thesis by (simp add: str_nat_small digit_char_plain)
  next
    case False
    then have "plain (str_nat (n div 10))" using 1 by simp
    moreover have "digit_char (n mod 10) \<noteq> CHR 0x0A" by (rule digit_char_plain) simp
    ultimately show ?thesis using False by (simp add: str_nat_big)
  qed
qed

lemma str_int_plain: "plain (str_int i)"
  using str_nat_plain by (simp add: str_int_def)

lemma zero_pad_plain: "plain s \<Longrightarrow> plain (zero_pad w s)"
  by (simp add: zero_pad_def plain_def)

lemma fmt_6f_plain: "plain (fmt_6f q)"
proof -
  show ?thesis
    unfolding fmt_6f_def Let_def using str_nat_plain zero_pad_plain by simp
qed

lemma render_annotation_plain: "plain (render_annotation a)"
proof -
  show ?thesis
    unfolding render_annotation_def using str_int_plain fmt_6f_plain by simp
qed

subsection \<open>Writing files\<close>

lemma open_write_Inr:
  "open_write p c fs = Inr fs' \<Longrightarrow>
   fs' = fs(p \<mapsto> File c) \<and> p \<noteq> [] \<and> is_dir fs (butlast p) \<and> fs p \<noteq> Some Dir"
  by (auto simp: open_write_def split: if_splits option.splits node.splits)

lemma open_write_ok:
  "p \<noteq> [] \<Longrightarrow> is_dir fs (butlast p) \<Longrightarrow> fs p \<noteq> Some Dir \<Longrightarrow>
   open_write p c fs = Inr (fs(p \<mapsto> File c))"
  by (auto simp: open_write_def split: option.splits node.splits)

lemma annotation_box_in_range: "box_in_range (fst (annotation_box condition cid g))"
proof -
  have r1: "\<And>q. ranged 0 1000000 (max 0 (min 1 q))" by (rule rangedI) simp_all
  have r2: "\<And>q. ranged 100000 800000 (max (1 / 10) (min (4 / 5) q))" by (rule rangedI) simp_all
  have r3: "\<And>q. ranged 100000 800000 (max (1 / 10) (min (1 / 2) q))"
    by (rule rangedI) (simp_all add: min_le_iff_disj)
  have r4: "ranged 0 1000000 (9 / 20)" by (rule rangedI) simp_all
  show ?thesis
    by (simp add: annotation_box_def box_in_range_def Let_def case_prod_unfold r1 r2 r3 r4)
qed

lemma annotation_box_class_id: "class_id (fst (annotation_box condition cid g)) = cid"
  by (simp add: annotation_box_def Let_def case_prod_unfold)

lemma classes_length: "length classes = 10"
  by (simp add: classes_def)

lemma classes_distinct: "distinct classes"
  by (simp add: classes_def)

lemma random_choice_index:
  "xs \<noteq> [] \<Longrightarrow> \<exists>k < length xs. fst (random_choice xs g) = xs ! k"
proof -
  assume "xs \<noteq> []"
  then have "g 0 mod length xs < length xs" by simp
  then show ?thesis by (auto simp: random_choice_def randbelow_def next_raw_def)
qed

lemma chosen_class_index:
  "\<exists>cid < length classes. list_index classes (fst (random_choice classes g)) = Some cid"
proof -
  have "classes \<noteq> []" by (simp add: classes_def)
  from random_choice_index [OF this, of g] obtain k where
    k: "k < length classes" "fst (random_choice classes g) = classes ! k" by blast
  then show ?thesis using list_index_nth [OF classes_distinct k(1)] by auto
qed

lemma write_sample_label:
  assumes "write_sample output_path split i (g, fs) = Inr (g', fs')"
  shows "\<exists>a. fs' (sample_file output_path ''labels'' split ''.txt'' i) =
            Some (File (Text (render_annotation a))) \<and> well_formed (length classes) a"
proof -
  obtain condition g1 where c: "random_choice classes g = (condition, g1)" by fastforce
  from chosen_class_index [of g] c obtain cid where
    cid: "cid < length classes" "list_index classes condition = Some cid" by auto
  obtain img g2 where im: "create_dental_image condition g1 = (img, g2)" by fastforce
  obtain a g3 where a: "annotation_box condition (int cid) g2 = (a, g3)" by fastforce
  let ?fs1 = "cv2_imwrite (sample_file output_path ''images'' split ''.jpg'' i) img fs"
  have "open_write (sample_file output_path ''labels'' split ''.txt'' i)
          (Text (render_annotation a)) ?fs1 = Inr fs'"
    using assms c cid im a
    by (simp add: write_sample_def create_annotation_def Let_def split: sum.splits)
  from open_write_Inr [OF this]
  have "fs' (sample_file output_path ''labels'' split ''.txt'' i) =
          Some (File (Text (render_annotation a)))" by simp
  moreover have "well_formed (length classes) a"
    using annotation_box_in_range [of condition "int cid" g2]
      annotation_box_class_id [of condition "int cid" g2] a cid
    by (simp add: well_formed_def)
  ultimately show ?thesis by blast
qed

subsection \<open>The boxes of either generator\<close>

lemma self_classes_length: "length self_classes = 10"
  by (simp add: self_classes_def)

lemma sampled_edges: "sampled a \<Longrightarrow> box_edges_inside a"
  unfolding sampled_def box_edges_inside_def ranged_def by simp

lemma generate_image_props:
  assumes "0 \<le> w" and "0 \<le> h"
  shows "\<exists>conditions g1 shapes anns g2.
     draw_conditions (new_generator dir n) g = Inr (conditions, g1) \<and>
     1 \<le> length conditions \<and> length conditions \<le> 4 \<and>
     generate_boxes (new_generator dir n) w h g = Inr ((PilImage w h shapes, anns), g2) \<and>
     generate_synthetic_dental_image (new_generator dir n) w h g =
       Inr ((PilImage w h shapes, map render_annotation anns), g2) \<and>
     map fst shapes = conditions \<and>
     map (\<lambda>a. self_classes ! nat (class_id a)) anns = conditions \<and>
     (\<forall>a \<in> set anns. 0 \<le> class_id a \<and> class_id a < int (length self_classes) \<and> sampled a)"
proof -
  have four: "4 \<le> length (gen_classes (new_generator dir n))"
    by (simp add: self_classes_length)
  from generate_boxes_props [OF four assms, of g] obtain conditions g1 shapes anns g2 where
    d: "draw_conditions (new_generator dir n) g = Inr (conditions, g1)" and
    l: "1 \<le> length conditions" "length conditions \<le> 4" and
    b: "generate_boxes (new_generator dir n) w h g = Inr ((PilImage w h shapes, anns), g2)" and
    m: "map fst shapes = conditions"
       "map (\<lambda>a. gen_classes (new_generator dir n) ! nat (class_id a)) anns = conditions" and
    r: "\<forall>a \<in> set anns. 0 \<le> class_id a \<and>
          class_id a < int (length (gen_classes (new_generator dir n))) \<and> sampled a"
    by blast
  have "generate_synthetic_dental_image (new_generator dir n) w h g =
          Inr ((PilImage w h shapes, map render_annotation anns), g2)"
    using b by (simp add: generate_synthetic_dental_image_def)
  then show ?thesis using d l b m r by (simp del: map_eq_conv)
qed

subsection \<open>Evaluation at concrete inputs\<close>

lemma ev1: "draw_conditions (new_generator dir n) (\<lambda>i. 0) = Inr ([''cavity''], \<lambda>i. 0)"
  by (simp add: draw_conditions_def random_sample_def eval_random self_classes_def)

lemma ev2: "generate_boxes (new_generator dir n) 416 416 (\<lambda>i. 0) =
   Inr ((PilImage 416 416 [(''cavity'', 62, 104, 41, 41)],
        [\<lparr>class_id = 0, x_center = 1 / 5, y_center = 3 / 10, box_width = 1 / 10, box_height = 1 / 10\<rparr>]), \<lambda>i. 0)"
  by (simp add: generate_boxes_def ev1 eval_random self_classes_def draw_condition_def py_int_def floor_numeral_div)

lemma ev3: "generate_synthetic_dental_image (new_generator dir n) 416 416 (\<lambda>i. 0) =
   Inr ((PilImage 416 416 [(''cavity'', 62, 104, 41, 41)],
        [''0 0.200000 0.300000 0.100000 0.100000'']), \<lambda>i. 0)"
  by (simp add: generate_synthetic_dental_image_def ev2 render_annotation_def eval_6f)

lemma ev4: "create_dental_image ''cavity'' (\<lambda>i. 0) = 
  (Cv2Image 416 416 ''cavity'' [(109, 143, 3), (161, 143, 3), (213, 143, 3), (265, 143, 3), (317, 143, 3), (369, 143, 3)], \<lambda>i. 0)"
  by (simp add: create_dental_image_def eval_random up6 Let_def)


lemma replicate_numeral: "replicate (numeral k) x = x # replicate (pred_numeral k) x"
  by (simp add: numeral_eq_Suc)

lemma sample_pool_numeral:
  "sample_pool pool (numeral k) g =
     (case randbelow (length pool) g of (j, g1) \<Rightarrow>
      (case sample_pool (butlast (pool[j := last pool])) (pred_numeral k) g1 of (chosen, g2) \<Rightarrow>
         (pool ! j # chosen, g2)))"
  by (simp add: numeral_eq_Suc)

lemma next_raw_g2: "next_raw (\<lambda>i. if i = 0 then 1 else 0) = (1, \<lambda>i. 0)"
  by (simp add: next_raw_def)

lemma ev5: "draw_conditions (new_generator dir n) (\<lambda>i. if i = 0 then 1 else 0) = Inr ([''cavity'', ''gum_inflammation''], \<lambda>i. 0)"
  by (simp add: draw_conditions_def random_sample_def eval_random self_classes_def next_raw_g2 sample_pool_numeral)

lemma ev6: "generate_synthetic_dental_image (new_generator dir n) 416 416 (\<lambda>i. if i = 0 then 1 else 0) =
   Inr ((PilImage 416 416 [(''cavity'', 62, 104, 41, 41), (''gum_inflammation'', 62, 104, 41, 41)],
        [''0 0.200000 0.300000 0.100000 0.100000'', ''9 0.200000 0.300000 0.100000 0.100000'']), \<lambda>i. 0)"
  by (simp add: generate_synthetic_dental_image_def generate_boxes_def ev5 eval_random self_classes_def
     draw_condition_def py_int_def floor_numeral_div render_annotation_def eval_6f)

lemma ev7: "generate_sample (new_generator [''d''] 1) ''train'' 0
     (\<lambda>i. if i = 0 then 1 else 0, made_dirs) =
   Inr (\<lambda>i. 0, made_dirs
     ([''d'', ''images'', ''train'', ''train_0000.jpg''] \<mapsto>
        File (Jpeg (PilImage 416 416
          [(''cavity'', 62, 104, 41, 41), (''gum_inflammation'', 62, 104, 41, 41)])),
      [''d'', ''labels'', ''train'', ''train_0000.txt''] \<mapsto>
        File (Text (''0 0.200000 0.300000 0.100000 0.100000'' @ [CHR 0x0A] @
                    ''9 0.200000 0.300000 0.100000 0.100000''))))"
  by (simp add: generate_sample_def ev6 sample_file_def eval_text replicate_numeral open_write_def
      is_dir_def made_dirs_def)

subsection \<open>The stages of the pipeline\<close>

lemma train_caught:
  "(train_exception sz out lib = Some e \<longrightarrow>
      \<not> ok (train_yolo_model d out ep sz lib) \<and>
      last (printed (train_yolo_model d out ep sz lib)) = cross_mark @ '' Training failed: '' @ e) \<and>
   (train_exception sz out lib = None \<longrightarrow> ok (train_yolo_model d out ep sz lib)) \<and>
   distinct (calls (train_yolo_model d out ep sz lib)) \<and>
   length (calls (train_yolo_model d out ep sz lib)) \<le> 3"
  by (auto simp: train_yolo_model_def train_exception_def Let_def split: outcome.splits)

lemma convert_caught:
  "(convert_exception i out lib = Some e \<longrightarrow>
      \<not> ok (convert_to_coreml i out lib) \<and>
      last (printed (convert_to_coreml i out lib)) =
        cross_mark @ '' CoreML conversion failed: '' @ e) \<and>
   (convert_exception i out lib = None \<longrightarrow>
      (ok (convert_to_coreml i out lib) \<or>
       last (printed (convert_to_coreml i out lib)) =
         cross_mark @ '' CoreML file not found after export'')) \<and>
   distinct (calls (convert_to_coreml i out lib)) \<and>
   length (calls (convert_to_coreml i out lib)) \<le> 4"
  by (auto simp: convert_to_coreml_def convert_exception_def Let_def
      split: outcome.splits list.splits)

lemma yolo_main_exit:
  "exit_code (yolo_main dir n ep sz om oc lib s) \<in> {0, 1} \<and>
   (exit_code (yolo_main dir n ep sz om oc lib s) = 0 \<longrightarrow>
     ok (train_yolo_model (str_path (dir @ [''dataset.yaml''])) om ep sz lib) \<and>
     ok (convert_to_coreml om oc lib))"
  by (auto simp: yolo_main_def generate_step_def Let_def create_dataset_yaml_def
      init_generator_def split: sum.splits prod.splits if_splits)






subsection \<open>Decimal text determines the number\<close>

























lemma sample_file_butlast [simp]: "butlast (sample_file out kind split ext i) = out @ [kind, split]"
  by (simp add: sample_file_def butlast_append)

lemma sample_file_not_Nil [simp]: "sample_file out kind split ext i \<noteq> []"
  by (simp add: sample_file_def)

lemma sample_file_length [simp]: "length (sample_file out kind split ext i) = length out + 3"
  by (simp add: sample_file_def)

lemma sample_file_kind:
  "sample_file out kind split ext i = sample_file out kind' split' ext' j \<Longrightarrow>
   kind = kind' \<and> split = split'"
  by (simp add: sample_file_def)


lemma sample_file_not_dir [simp]: "sample_file out kind split ext i \<noteq> out @ [kind', split']"
  by (metis sample_file_length length_append list.size(3,4) add_Suc_right
      Suc_n_not_n add.right_neutral numeral_3_eq_3 One_nat_def add_Suc_shift)




lemma sample_file_name: "sample_file out kind split ext i = (out @ [kind, split]) @ [file_name split ext i]"
  by (simp add: sample_file_def file_name_def)






lemma create_dataset_run:
  "create_dataset out n f (g, fs) = Inr (g', fs') \<longleftrightarrow>
   (\<exists>nt nv. split_counts n f = Inr (nt, nv) \<and>
      dataset_run out (write_sample out) (nat nt) (nat nv) classes (g, fs) (g', fs'))"
  unfolding dataset_run_def create_dataset_def py_range_def
  by (auto split: sum.splits prod.splits)

lemma generate_step_run:
  "generate_step dir n (g, fs) = Inr (y, g', fs') \<longleftrightarrow>
   y = dir @ [''dataset.yaml''] \<and>
   (\<exists>nt nv. split_counts n (4 / 5) = Inr (nt, nv) \<and>
      dataset_run dir (generate_sample (new_generator dir n)) (nat nt) (nat nv)
        self_classes (g, fs) (g', fs'))"
  unfolding dataset_run_def generate_step_def init_generator_def generate_dataset_def
    create_dataset_yaml_def py_range_def
  by (auto split: sum.splits prod.splits)

















lemma dataset_manifest:
  assumes run: "dataset_run out body nt nv cls (g, fs) (g', fs')"
  shows "fs' (out @ [''dataset.yaml'']) = Some (File (Yaml (make_config out cls)))"
  using run open_write_Inr unfolding dataset_run_def by fastforce




lemma mkdirs_empty: "mkdirs (split_dirs [''d'']) Map.empty = Inr made_dirs"
  by (simp add: split_dirs_def mkdir_def made_dirs_def)

lemma float_round_4_5: "float_round (4 / 5) = Some (3602879701896397 / 4503599627370496)"
  by (simp add: eval_float)


lemma split_counts_2: "split_counts 2 (4 / 5) = Inr (1, 1)"
  by (simp add: split_counts_def float_round_4_5 py_int_def eval_float ceiling_minus_numeral_div)


lemma sample_train0: 
  "write_sample [''d''] ''train'' 0 (\<lambda>i. 0, made_dirs) =
     Inr (\<lambda>i. 0, made_dirs([''d'', ''images'', ''train'', ''train_0000.jpg''] \<mapsto> File (Jpeg cavity_image),
       [''d'', ''labels'', ''train'', ''train_0000.txt''] \<mapsto> File (Text ''0 0.500000 0.450000 0.600000 0.300000'')))"
  by (simp add: write_sample_def ev4 eval_random classes_def cv2_imwrite_def sample_file_def eval_text replicate_numeral open_write_def is_dir_def
      create_annotation_def annotation_box_def render_annotation_def fmt_6f_half fmt_6f_y fmt_6f_w fmt_6f_h made_dirs_def cavity_image_def)

lemmas eval_files = cv2_imwrite_def sample_file_def eval_text replicate_numeral open_write_def
  is_dir_def made_dirs_def

lemma dir_not_sample_file [simp]: "out @ [kind', split'] \<noteq> sample_file out kind split ext i"
  using sample_file_not_dir [of out kind split ext i kind' split'] by metis

lemma imwrite_ok:
  "is_dir fs (butlast p) \<Longrightarrow> p \<noteq> [] \<Longrightarrow> fs p \<noteq> Some Dir \<Longrightarrow>
   cv2_imwrite p img fs = fs(p \<mapsto> File (Jpeg img))"
  by (simp add: cv2_imwrite_def open_write_ok)

lemma pair_ok:
  assumes "is_dir fs (out @ [''labels'', split])" and "is_dir fs (out @ [''images'', split])"
    and "fs (sample_file out ''images'' split ''.jpg'' i) \<noteq> Some Dir"
    and "fs (sample_file out ''labels'' split ''.txt'' i) \<noteq> Some Dir"
  shows "open_write (sample_file out ''labels'' split ''.txt'' i) (Text t)
           (fs(sample_file out ''images'' split ''.jpg'' i \<mapsto> File (Jpeg img))) =
         Inr (fs(sample_file out ''images'' split ''.jpg'' i \<mapsto> File (Jpeg img),
                sample_file out ''labels'' split ''.txt'' i \<mapsto> File (Text t)))"
proof (rule open_write_ok)
  show "sample_file out ''labels'' split ''.txt'' i \<noteq> []" by simp
  show "is_dir (fs(sample_file out ''images'' split ''.jpg'' i \<mapsto> File (Jpeg img)))
          (butlast (sample_file out ''labels'' split ''.txt'' i))"
    using assms(1) by (simp add: is_dir_def)
  show "(fs(sample_file out ''images'' split ''.jpg'' i \<mapsto> File (Jpeg img)))
          (sample_file out ''labels'' split ''.txt'' i) \<noteq> Some Dir"
    using assms(4) by simp
qed

lemma write_sample_const:
  assumes "is_dir fs (out @ [''labels'', split])" and "is_dir fs (out @ [''images'', split])"
    and "fs (sample_file out ''images'' split ''.jpg'' i) \<noteq> Some Dir"
    and "fs (sample_file out ''labels'' split ''.txt'' i) \<noteq> Some Dir"
  shows "write_sample out split i (\<lambda>i. 0, fs) =
     Inr (\<lambda>i. 0, fs(sample_file out ''images'' split ''.jpg'' i \<mapsto> File (Jpeg cavity_image),
       sample_file out ''labels'' split ''.txt'' i \<mapsto>
         File (Text ''0 0.500000 0.450000 0.600000 0.300000'')))"
proof -
  have c: "random_choice classes (\<lambda>i. 0) = (''cavity'', \<lambda>i. 0)"
    by (simp add: eval_random classes_def)
  have i: "list_index classes ''cavity'' = Some 0" by (simp add: classes_def)
  have a: "create_annotation p ''cavity'' (int 0) (\<lambda>i. 0) =
             (''0 0.500000 0.450000 0.600000 0.300000'', \<lambda>i. 0)" for p
    by (simp add: create_annotation_def annotation_box_def render_annotation_def eval_text
        fmt_6f_half fmt_6f_y fmt_6f_w fmt_6f_h)
  have w: "cv2_imwrite (sample_file out ''images'' split ''.jpg'' i) cavity_image fs =
      fs(sample_file out ''images'' split ''.jpg'' i \<mapsto> File (Jpeg cavity_image))"
    using assms(2,3) by (simp add: imwrite_ok)
  show ?thesis
    unfolding write_sample_def
    by (simp add: c i ev4 [folded cavity_image_def] a w pair_ok [OF assms] Let_def
        del: of_nat_0)
qed


lemma generate_sample_const:
  assumes "is_dir fs (out @ [''labels'', split])" and "is_dir fs (out @ [''images'', split])"
    and "fs (sample_file out ''images'' split ''.jpg'' i) \<noteq> Some Dir"
    and "fs (sample_file out ''labels'' split ''.txt'' i) \<noteq> Some Dir"
  shows "generate_sample (new_generator out n) split i (\<lambda>i. 0, fs) =
     Inr (\<lambda>i. 0, fs(sample_file out ''images'' split ''.jpg'' i \<mapsto>
         File (Jpeg (PilImage 416 416 [(''cavity'', 62, 104, 41, 41)])),
       sample_file out ''labels'' split ''.txt'' i \<mapsto>
         File (Text ''0 0.200000 0.300000 0.100000 0.100000'')))"
proof -
  have w: "open_write (sample_file out ''images'' split ''.jpg'' i) c fs =
      Inr (fs(sample_file out ''images'' split ''.jpg'' i \<mapsto> File c))" for c
    using assms(2,3) by (simp add: open_write_ok)
  show ?thesis
    unfolding generate_sample_def
    by (simp add: ev3 w pair_ok [OF assms])
qed

lemma run_2: "create_dataset [''d''] 2 (4 / 5) (\<lambda>i. 0, Map.empty) = Inr (\<lambda>i. 0, fixed_dataset)"
  by (simp add: create_dataset_def mkdirs_empty split_counts_2 py_range_def write_sample_const
      eval_files fixed_dataset_def)

lemma gen_2: "generate_step [''d''] 2 (\<lambda>i. 0, Map.empty) =
   Inr ([''d'', ''dataset.yaml''], \<lambda>i. 0, multi_dataset)"
  by (simp add: generate_step_def init_generator_def generate_dataset_def create_dataset_yaml_def
      mkdirs_empty split_counts_2 py_range_def generate_sample_const
      eval_files multi_dataset_def)
























section \<open>The claims\<close>

text \<open>
  C1. Every annotation line that either generator emits has its class index in
  \<open>[0, class_count)\<close>, its centre coordinates in \<open>[0, 1]\<close> and its width and height in
  \<open>[0.1, 0.8]\<close>, as computed and as printed with six decimals, and clamping its values
  into these ranges leaves them as they are. In \<open>create_annotation\<close> this holds for the
  box of any condition, any class index and any random state, since the values pass
  through \<open>max\<close> and \<open>min\<close> (the height is even kept below \<open>0.5\<close>); the line that one
  iteration of \<open>create_dataset\<close> writes carries the index of the chosen class in the list
  of ten. Whenever \<open>generate_synthetic_dental_image\<close> returns, at any size of the image,
  it returns at least one line and each line is in range: there the values are in range
  as they are drawn, without a call of \<open>max\<close> or \<open>min\<close>. At the size the generator
  calls it with, 416 by 416, it returns in every state of the random module.
\<close>

theorem annotations_in_range:
  "box_in_range (fst (annotation_box condition cid g0)) \<and>
   clamped (fst (annotation_box condition cid g0)) \<and>
   (write_sample output_path split i (g, fs) = Inr (g', fs') \<longrightarrow>
      (\<exists>a. fs' (sample_file output_path ''labels'' split ''.txt'' i) =
              Some (File (Text (render_annotation a))) \<and>
           well_formed (length classes) a \<and> clamped a)) \<and>
   (generate_synthetic_dental_image (new_generator dir n) w h g = Inr ((img, lines), g'') \<longrightarrow>
      (\<exists>anns. lines = map render_annotation anns \<and> anns \<noteq> [] \<and>
         (\<forall>a \<in> set anns.
            well_formed (length (gen_classes (new_generator dir n))) a \<and> clamped a))) \<and>
   (\<exists>img lines g''.
      generate_synthetic_dental_image (new_generator dir n) 416 416 g = Inr ((img, lines), g''))"
proof (intro conjI impI)
  show "box_in_range (fst (annotation_box condition cid g0))" by (rule annotation_box_in_range)
  then show "clamped (fst (annotation_box condition cid g0))" by (rule box_in_range_clamped)
next
  assume "write_sample output_path split i (g, fs) = Inr (g', fs')"
  from write_sample_label [OF this] obtain a where
    a: "fs' (sample_file output_path ''labels'' split ''.txt'' i) =
          Some (File (Text (render_annotation a)))" "well_formed (length classes) a" by blast
  then have "clamped a" using box_in_range_clamped by (simp add: well_formed_def)
  then show "\<exists>a. fs' (sample_file output_path ''labels'' split ''.txt'' i) =
              Some (File (Text (render_annotation a))) \<and>
           well_formed (length classes) a \<and> clamped a" using a by blast
next
  assume run: "generate_synthetic_dental_image (new_generator dir n) w h g = Inr ((img, lines), g'')"
  from generate_image_size [OF run] have sz: "0 \<le> w" "0 \<le> h" by simp_all
  from generate_image_props [OF sz, of dir n g] obtain conditions shapes anns g3 where
    l: "1 \<le> length conditions" and
    b: "generate_synthetic_dental_image (new_generator dir n) w h g =
          Inr ((PilImage w h shapes, map render_annotation anns), g3)" and
    m: "map (\<lambda>a. self_classes ! nat (class_id a)) anns = conditions" and
    r: "\<forall>a \<in> set anns. 0 \<le> class_id a \<and> class_id a < int (length self_classes) \<and> sampled a"
    by blast
  have ne: "anns \<noteq> []" using l m by auto
  have wf: "\<forall>a \<in> set anns.
      well_formed (length (gen_classes (new_generator dir n))) a \<and> clamped a"
    using r sampled_box_in_range box_in_range_clamped unfolding well_formed_def by auto
  have "lines = map render_annotation anns" using run b by simp
  then show "\<exists>anns. lines = map render_annotation anns \<and> anns \<noteq> [] \<and>
         (\<forall>a \<in> set anns.
            well_formed (length (gen_classes (new_generator dir n))) a \<and> clamped a)"
    using ne wf by blast
next
  from generate_image_props [of 416 416 dir n g]
  show "\<exists>img lines g''.
      generate_synthetic_dental_image (new_generator dir n) 416 416 g = Inr ((img, lines), g'')"
    by auto
qed

theorem annotations_in_range_witness:
  "box_in_range (fst (annotation_box ''misaligned'' 7 (\<lambda>i. 0))) \<and>
   write_sample [''d''] ''train'' 0 (\<lambda>i. 0, made_dirs) =
     Inr (\<lambda>i. 0, made_dirs
       ([''d'', ''images'', ''train'', ''train_0000.jpg''] \<mapsto> File (Jpeg cavity_image),
        [''d'', ''labels'', ''train'', ''train_0000.txt''] \<mapsto>
          File (Text ''0 0.500000 0.450000 0.600000 0.300000''))) \<and>
   (\<exists>a. render_annotation a = ''0 0.500000 0.450000 0.600000 0.300000'' \<and>
        well_formed 10 a \<and> clamped a) \<and>
   generate_synthetic_dental_image (new_generator [] 1) 416 416 (\<lambda>i. 0) =
     Inr ((PilImage 416 416 [(''cavity'', 62, 104, 41, 41)],
          [''0 0.200000 0.300000 0.100000 0.100000'']), \<lambda>i. 0) \<and>
   (\<exists>a. render_annotation a = ''0 0.200000 0.300000 0.100000 0.100000'' \<and>
        well_formed 10 a \<and> clamped a)"
proof -
  note t = annotations_in_range [where condition = "''misaligned''" and cid = 7 and
      ?g0.0 = "\<lambda>i. 0" and output_path = "[''d'']" and split = "''train''" and i = 0 and
      g = "\<lambda>i. 0" and fs = made_dirs and g' = "\<lambda>i. 0" and
      fs' = "made_dirs
       ([''d'', ''images'', ''train'', ''train_0000.jpg''] \<mapsto> File (Jpeg cavity_image),
        [''d'', ''labels'', ''train'', ''train_0000.txt''] \<mapsto>
          File (Text ''0 0.500000 0.450000 0.600000 0.300000''))" and
      dir = "[]" and n = 1 and w = 416 and h = 416 and
      img = "PilImage 416 416 [(''cavity'', 62, 104, 41, 41)]" and
      lines = "[''0 0.200000 0.300000 0.100000 0.100000'']" and g'' = "\<lambda>i. 0"]
  note box = t [THEN conjunct1]
  note fixed = t [THEN conjunct2, THEN conjunct2, THEN conjunct1, THEN mp, OF sample_train0]
  note multi = t [THEN conjunct2, THEN conjunct2, THEN conjunct2, THEN conjunct1, THEN mp, OF ev3]
  have path: "sample_file [''d''] ''labels'' ''train'' ''.txt'' 0 =
      [''d'', ''labels'', ''train'', ''train_0000.txt'']"
    by (simp add: sample_file_def eval_text replicate_numeral)
  from fixed obtain a where
    "(made_dirs
       ([''d'', ''images'', ''train'', ''train_0000.jpg''] \<mapsto> File (Jpeg cavity_image),
        [''d'', ''labels'', ''train'', ''train_0000.txt''] \<mapsto>
          File (Text ''0 0.500000 0.450000 0.600000 0.300000'')))
       (sample_file [''d''] ''labels'' ''train'' ''.txt'' 0) =
     Some (File (Text (render_annotation a)))" and
    "well_formed (length classes) a" and "clamped a"
    by (elim exE conjE) (rule that)
  then have one: "\<exists>a. render_annotation a = ''0 0.500000 0.450000 0.600000 0.300000'' \<and>
        well_formed 10 a \<and> clamped a"
    unfolding path classes_length by auto
  from multi obtain anns where
    m: "[''0 0.200000 0.300000 0.100000 0.100000''] = map render_annotation anns" and
    r: "\<forall>a \<in> set anns. well_formed (length (gen_classes (new_generator [] 1))) a \<and> clamped a"
    by (elim exE conjE) (rule that)
  from m obtain b where "anns = [b]" by (cases anns) auto
  then have two: "\<exists>a. render_annotation a = ''0 0.200000 0.300000 0.100000 0.100000'' \<and>
        well_formed 10 a \<and> clamped a"
    using m r by (auto simp: self_classes_length)
  show ?thesis using box sample_train0 one ev3 two by simp
qed






text \<open>
  C4. The manifest written at the end of a completed run lists the class names of the
  enumeration the generator indexes its annotations with, in the same order, and its
  \<open>nc\<close> is the length of that list: the local list \<open>classes\<close> for \<open>create_dataset\<close>,
  and \<open>self.classes\<close> for \<open>create_dataset_yaml\<close>, which is the list assigned when the
  generator is built.
\<close>

theorem manifest_lists_classes:
  "(create_dataset out n f (g, fs) = Inr (g', fs') \<longrightarrow>
      (\<exists>m. fs' (out @ [''dataset.yaml'']) = Some (File (Yaml m)) \<and>
           cfg_names m = classes \<and> cfg_nc m = length classes)) \<and>
   (create_dataset_yaml self fs = Inr (y, fs') \<longrightarrow>
      (\<exists>m. fs' y = Some (File (Yaml m)) \<and>
           cfg_names m = gen_classes self \<and> cfg_nc m = length (gen_classes self))) \<and>
   (generate_step out n (g, fs) = Inr (y, g', fs') \<longrightarrow>
      (\<exists>m. fs' y = Some (File (Yaml m)) \<and>
           cfg_names m = gen_classes (new_generator out n) \<and>
           cfg_names m = self_classes \<and> cfg_nc m = length self_classes))"
proof (intro conjI impI)
  assume "create_dataset out n f (g, fs) = Inr (g', fs')"
  then have "fs' (out @ [''dataset.yaml'']) = Some (File (Yaml (make_config out classes)))"
    unfolding create_dataset_run using dataset_manifest by blast
  then show "\<exists>m. fs' (out @ [''dataset.yaml'']) = Some (File (Yaml m)) \<and>
           cfg_names m = classes \<and> cfg_nc m = length classes"
    by (simp add: make_config_def)
next
  assume "create_dataset_yaml self fs = Inr (y, fs')"
  then have "open_write y (Yaml (make_config (output_dir self) (gen_classes self))) fs = Inr fs'"
    by (auto simp: create_dataset_yaml_def split: sum.splits)
  from open_write_Inr [OF this]
  show "\<exists>m. fs' y = Some (File (Yaml m)) \<and>
           cfg_names m = gen_classes self \<and> cfg_nc m = length (gen_classes self)"
    by (simp add: make_config_def)
next
  assume "generate_step out n (g, fs) = Inr (y, g', fs')"
  then have "fs' y = Some (File (Yaml (make_config out self_classes)))"
    unfolding generate_step_run using dataset_manifest by blast
  then show "\<exists>m. fs' y = Some (File (Yaml m)) \<and>
           cfg_names m = gen_classes (new_generator out n) \<and>
           cfg_names m = self_classes \<and> cfg_nc m = length self_classes"
    by (simp add: make_config_def)
qed

theorem manifest_lists_classes_witness:
  "create_dataset [''d''] 2 (4 / 5) (\<lambda>i. 0, Map.empty) = Inr (\<lambda>i. 0, fixed_dataset) \<and>
   fixed_dataset [''d'', ''dataset.yaml''] = Some (File (Yaml (make_config [''d''] classes))) \<and>
   cfg_names (make_config [''d''] classes) = classes \<and>
   cfg_nc (make_config [''d''] classes) = 10 \<and>
   generate_step [''d''] 2 (\<lambda>i. 0, Map.empty) =
     Inr ([''d'', ''dataset.yaml''], \<lambda>i. 0, multi_dataset) \<and>
   multi_dataset [''d'', ''dataset.yaml''] = Some (File (Yaml (make_config [''d''] self_classes))) \<and>
   cfg_names (make_config [''d''] self_classes) = self_classes \<and>
   cfg_nc (make_config [''d''] self_classes) = 10"
  using manifest_lists_classes [of "[''d'']" 2 "4 / 5" "\<lambda>i. 0" Map.empty "\<lambda>i. 0" fixed_dataset
      "new_generator [''d''] 2" "[]"]
    manifest_lists_classes [of "[''d'']" 2 "4 / 5" "\<lambda>i. 0" Map.empty "\<lambda>i. 0" multi_dataset
      "new_generator [''d''] 2" "[''d'', ''dataset.yaml'']"]
    run_2 gen_2
  by (auto simp: fixed_dataset_def multi_dataset_def make_config_def classes_length
      self_classes_length)




text \<open>
  C6. In the multi-label generator the conditions drawn for one image are between one and
  four; the loop draws one shape and appends one annotation per condition, in the order of
  the conditions, each annotation carrying the class index of its condition; the label
  text joins the printed annotations with newlines, no printed annotation contains a
  newline, so that the label file written by \<open>generate_dataset\<close> has exactly one line per
  annotation, in that order. The first part holds of every call of
  \<open>generate_synthetic_dental_image\<close> that returns, the second of every iteration of
  \<open>generate_dataset\<close> that completes, and at the size the generator uses, 416 by 416, the
  call returns in every state of the random module.
\<close>

theorem one_line_per_condition:
  "(generate_synthetic_dental_image (new_generator dir n) w h g = Inr ((img, lines), g'') \<longrightarrow>
      (\<exists>conditions g1 shapes anns.
         draw_conditions (new_generator dir n) g = Inr (conditions, g1) \<and>
         1 \<le> length conditions \<and> length conditions \<le> 4 \<and>
         img = PilImage w h shapes \<and> lines = map render_annotation anns \<and>
         map fst shapes = conditions \<and>
         map (\<lambda>a. self_classes ! nat (class_id a)) anns = conditions \<and>
         length lines = length conditions \<and>
         split_lines (join_lines lines) = lines)) \<and>
   (generate_sample (new_generator dir n) split i (g, fs) = Inr (g', fs') \<longrightarrow>
      (\<exists>img lines g''.
         generate_synthetic_dental_image (new_generator dir n) 416 416 g =
           Inr ((img, lines), g'') \<and>
         fs' (sample_file dir ''labels'' split ''.txt'' i) =
           Some (File (Text (join_lines lines))))) \<and>
   (\<exists>img lines g''.
      generate_synthetic_dental_image (new_generator dir n) 416 416 g = Inr ((img, lines), g''))"
proof (intro conjI impI)
  assume run: "generate_synthetic_dental_image (new_generator dir n) w h g = Inr ((img, lines), g'')"
  from generate_image_size [OF run] have sz: "0 \<le> w" "0 \<le> h" by simp_all
  from generate_image_props [OF sz, of dir n g] obtain conditions g1 shapes anns g3 where
    d: "draw_conditions (new_generator dir n) g = Inr (conditions, g1)" and
    l: "1 \<le> length conditions" "length conditions \<le> 4" and
    b: "generate_synthetic_dental_image (new_generator dir n) w h g =
          Inr ((PilImage w h shapes, map render_annotation anns), g3)" and
    m: "map fst shapes = conditions"
       "map (\<lambda>a. self_classes ! nat (class_id a)) anns = conditions"
    by blast
  have e: "img = PilImage w h shapes" "lines = map render_annotation anns" using run b by simp_all
  have len: "length anns = length conditions" using m(2) by auto
  then have ne: "map render_annotation anns \<noteq> []" using l by auto
  have sp: "split_lines (join_lines (map render_annotation anns)) = map render_annotation anns"
    by (rule split_join_lines [OF ne]) (simp add: render_annotation_plain)
  show "\<exists>conditions g1 shapes anns.
         draw_conditions (new_generator dir n) g = Inr (conditions, g1) \<and>
         1 \<le> length conditions \<and> length conditions \<le> 4 \<and>
         img = PilImage w h shapes \<and> lines = map render_annotation anns \<and>
         map fst shapes = conditions \<and>
         map (\<lambda>a. self_classes ! nat (class_id a)) anns = conditions \<and>
         length lines = length conditions \<and>
         split_lines (join_lines lines) = lines"
    using d l e m len sp by (simp del: map_eq_conv) blast
next
  assume "generate_sample (new_generator dir n) split i (g, fs) = Inr (g', fs')"
  then obtain img lines g'' fs1 where
    "generate_synthetic_dental_image (new_generator dir n) 416 416 g = Inr ((img, lines), g'')"
    "open_write (sample_file dir ''labels'' split ''.txt'' i) (Text (join_lines lines)) fs1 =
       Inr fs'"
    by (auto simp: generate_sample_def split: sum.splits)
  then show "\<exists>img lines g''.
         generate_synthetic_dental_image (new_generator dir n) 416 416 g =
           Inr ((img, lines), g'') \<and>
         fs' (sample_file dir ''labels'' split ''.txt'' i) =
           Some (File (Text (join_lines lines)))"
    using open_write_Inr by fastforce
next
  from generate_image_props [of 416 416 dir n g]
  show "\<exists>img lines g''.
      generate_synthetic_dental_image (new_generator dir n) 416 416 g = Inr ((img, lines), g'')"
    by auto
qed

theorem one_line_per_condition_witness:
  "draw_conditions (new_generator [''d''] 1) (\<lambda>i. if i = 0 then 1 else 0) =
     Inr ([''cavity'', ''gum_inflammation''], \<lambda>i. 0) \<and>
   generate_synthetic_dental_image (new_generator [''d''] 1) 416 416 (\<lambda>i. if i = 0 then 1 else 0) =
     Inr ((PilImage 416 416
             [(''cavity'', 62, 104, 41, 41), (''gum_inflammation'', 62, 104, 41, 41)],
           [''0 0.200000 0.300000 0.100000 0.100000'',
            ''9 0.200000 0.300000 0.100000 0.100000'']), \<lambda>i. 0) \<and>
   generate_sample (new_generator [''d''] 1) ''train'' 0
       (\<lambda>i. if i = 0 then 1 else 0, made_dirs) =
     Inr (\<lambda>i. 0, made_dirs
       ([''d'', ''images'', ''train'', ''train_0000.jpg''] \<mapsto>
          File (Jpeg (PilImage 416 416
            [(''cavity'', 62, 104, 41, 41), (''gum_inflammation'', 62, 104, 41, 41)])),
        [''d'', ''labels'', ''train'', ''train_0000.txt''] \<mapsto>
          File (Text (''0 0.200000 0.300000 0.100000 0.100000'' @ [CHR 0x0A] @
                      ''9 0.200000 0.300000 0.100000 0.100000'')))) \<and>
   split_lines (''0 0.200000 0.300000 0.100000 0.100000'' @ [CHR 0x0A] @
                ''9 0.200000 0.300000 0.100000 0.100000'') =
     [''0 0.200000 0.300000 0.100000 0.100000'', ''9 0.200000 0.300000 0.100000 0.100000'']"
proof -
  note t = one_line_per_condition [where dir = "[''d'']" and n = 1 and
      g = "\<lambda>i. if i = 0 then 1 else 0" and w = 416 and h = 416 and
      img = "PilImage 416 416
             [(''cavity'', 62, 104, 41, 41), (''gum_inflammation'', 62, 104, 41, 41)]" and
      lines = "[''0 0.200000 0.300000 0.100000 0.100000'',
                ''9 0.200000 0.300000 0.100000 0.100000'']" and g'' = "\<lambda>i. 0"]
  from t [THEN conjunct1, THEN mp, OF ev6]
  have "split_lines (join_lines [''0 0.200000 0.300000 0.100000 0.100000'',
                ''9 0.200000 0.300000 0.100000 0.100000'']) =
        [''0 0.200000 0.300000 0.100000 0.100000'', ''9 0.200000 0.300000 0.100000 0.100000'']"
    by (elim exE conjE)
  then show ?thesis using ev5 ev6 ev7 by simp
qed



text \<open>
  C8. The training stage and the conversion stage return a boolean. When a library call
  inside the stage raises, the stage returns \<open>False\<close> and the last line it prints is the
  failure message with the text of the exception; when no call raises, training returns
  \<open>True\<close>, and conversion returns \<open>True\<close> or reports that no exported file was found. No
  library call is made twice within a stage. The process exits with status 0 or 1, and
  with 0 only when both stages returned \<open>True\<close>.
\<close>

theorem stages_report_failure:
  "(train_exception sz om lib = Some e \<longrightarrow>
      \<not> ok (train_yolo_model d om ep sz lib) \<and>
      last (printed (train_yolo_model d om ep sz lib)) = cross_mark @ '' Training failed: '' @ e) \<and>
   (train_exception sz om lib = None \<longrightarrow> ok (train_yolo_model d om ep sz lib)) \<and>
   distinct (calls (train_yolo_model d om ep sz lib)) \<and>
   length (calls (train_yolo_model d om ep sz lib)) \<le> 3 \<and>
   (convert_exception om oc lib = Some e' \<longrightarrow>
      \<not> ok (convert_to_coreml om oc lib) \<and>
      last (printed (convert_to_coreml om oc lib)) =
        cross_mark @ '' CoreML conversion failed: '' @ e') \<and>
   (convert_exception om oc lib = None \<longrightarrow>
      (ok (convert_to_coreml om oc lib) \<or>
       last (printed (convert_to_coreml om oc lib)) =
         cross_mark @ '' CoreML file not found after export'')) \<and>
   distinct (calls (convert_to_coreml om oc lib)) \<and>
   length (calls (convert_to_coreml om oc lib)) \<le> 4 \<and>
   exit_code (yolo_main dir n ep sz om oc lib s) \<in> {0, 1} \<and>
   (exit_code (yolo_main dir n ep sz om oc lib s) = 0 \<longrightarrow>
      ok (train_yolo_model (str_path (dir @ [''dataset.yaml''])) om ep sz lib) \<and>
      ok (convert_to_coreml om oc lib))"
  using train_caught [of sz om lib e d ep] convert_caught [of om oc lib e']
    yolo_main_exit [of dir n ep sz om oc lib s]
  by blast

theorem stages_report_failure_witness:
  "train_exception ''n'' ''m.pt'' failing_library = Some ''out of memory'' \<and>
   \<not> ok (train_yolo_model ''d/dataset.yaml'' ''m.pt'' 50 ''n'' failing_library) \<and>
   last (printed (train_yolo_model ''d/dataset.yaml'' ''m.pt'' 50 ''n'' failing_library)) =
     cross_mark @ '' Training failed: out of memory'' \<and>
   convert_exception ''m.pt'' ''m.mlpackage'' failing_library = None \<and>
   exit_code (yolo_main [''d''] 10 50 ''n'' ''m.pt'' ''m.mlpackage'' failing_library
     (\<lambda>i. 0, Map.empty)) = 1"
proof -
  have a: "train_exception ''n'' ''m.pt'' failing_library = Some ''out of memory''"
    by (simp add: train_exception_def failing_library_def)
  have b: "convert_exception ''m.pt'' ''m.mlpackage'' failing_library = None"
    by (simp add: convert_exception_def failing_library_def)
  have c: "str_path ([''d''] @ [''dataset.yaml'']) = ''d/dataset.yaml''" by simp
  show ?thesis
    using a b c
      stages_report_failure [of "''n''" "''m.pt''" failing_library "''out of memory''"
        "''d/dataset.yaml''" 50 "''m.mlpackage''" "[]" "[''d'']" 10 "(\<lambda>i. 0, Map.empty)"]
    by auto
qed

text \<open>
  C9. In the multi-label generator every emitted box has its centre in
  \<open>[0.2, 0.8] \<times> [0.3, 0.7]\<close> and its width and height in \<open>[0.1, 0.3]\<close>, so that its
  horizontal edges \<open>x \<plusminus> w/2\<close> lie in \<open>[0.05, 0.95]\<close> and its vertical edges
  \<open>y \<plusminus> h/2\<close> in \<open>[0.15, 0.85]\<close>; this holds of the values computed and of the six
  decimals printed (stated there in units of \<open>10\<^sup>-\<^sup>6\<close>, doubled to avoid halves). The
  generator has no clamping step: the lines it returns print the boxes as they are
  drawn. This holds of every call that returns, at any size of the image, and at the size
  the generator uses, 416 by 416, the call returns in every state of the random module.
\<close>

theorem multi_label_boxes_inside:
  "(generate_boxes (new_generator dir n) w h g = Inr ((img, anns), g'') \<longrightarrow>
      generate_synthetic_dental_image (new_generator dir n) w h g =
        Inr ((img, map render_annotation anns), g'') \<and>
      anns \<noteq> [] \<and>
      (\<forall>a \<in> set anns. sampled a \<and> box_edges_inside a)) \<and>
   (generate_synthetic_dental_image (new_generator dir n) w h g = Inr ((img, lines), g'') \<longrightarrow>
      (\<exists>anns. generate_boxes (new_generator dir n) w h g = Inr ((img, anns), g'') \<and>
         lines = map render_annotation anns)) \<and>
   (\<exists>img anns g''. generate_boxes (new_generator dir n) 416 416 g = Inr ((img, anns), g''))"
proof (intro conjI impI)
  assume run: "generate_boxes (new_generator dir n) w h g = Inr ((img, anns), g'')"
  from generate_boxes_size [OF run] have sz: "0 \<le> w" "0 \<le> h" by simp_all
  from generate_image_props [OF sz, of dir n g] obtain conditions shapes anns' g3 where
    l: "1 \<le> length conditions" and
    b: "generate_boxes (new_generator dir n) w h g = Inr ((PilImage w h shapes, anns'), g3)" and
    m: "map (\<lambda>a. self_classes ! nat (class_id a)) anns' = conditions" and
    r: "\<forall>a \<in> set anns'. 0 \<le> class_id a \<and> class_id a < int (length self_classes) \<and> sampled a"
    by blast
  have e: "anns' = anns" using run b by simp
  show "generate_synthetic_dental_image (new_generator dir n) w h g =
        Inr ((img, map render_annotation anns), g'')"
    using run by (simp add: generate_synthetic_dental_image_def)
  show "anns \<noteq> []" using l m e by auto
  show "\<forall>a \<in> set anns. sampled a \<and> box_edges_inside a" using r e sampled_edges by blast
next
  assume "generate_synthetic_dental_image (new_generator dir n) w h g = Inr ((img, lines), g'')"
  then show "\<exists>anns. generate_boxes (new_generator dir n) w h g = Inr ((img, anns), g'') \<and>
         lines = map render_annotation anns"
    by (auto simp: generate_synthetic_dental_image_def split: sum.splits)
next
  from generate_image_props [of 416 416 dir n g]
  show "\<exists>img anns g''. generate_boxes (new_generator dir n) 416 416 g = Inr ((img, anns), g'')"
    by auto
qed

theorem multi_label_boxes_inside_witness:
  "generate_boxes (new_generator [] 1) 416 416 (\<lambda>i. 0) =
     Inr ((PilImage 416 416 [(''cavity'', 62, 104, 41, 41)],
          [\<lparr>class_id = 0, x_center = 1 / 5, y_center = 3 / 10, box_width = 1 / 10,
            box_height = 1 / 10\<rparr>]), \<lambda>i. 0) \<and>
   generate_synthetic_dental_image (new_generator [] 1) 416 416 (\<lambda>i. 0) =
     Inr ((PilImage 416 416 [(''cavity'', 62, 104, 41, 41)],
          [''0 0.200000 0.300000 0.100000 0.100000'']), \<lambda>i. 0) \<and>
   sampled \<lparr>class_id = 0, x_center = 1 / 5, y_center = 3 / 10, box_width = 1 / 10,
            box_height = 1 / 10\<rparr> \<and>
   box_edges_inside \<lparr>class_id = 0, x_center = 1 / 5, y_center = 3 / 10, box_width = 1 / 10,
            box_height = 1 / 10\<rparr>"
proof -
  note t = multi_label_boxes_inside [where dir = "[]" and n = 1 and w = 416 and h = 416 and
      g = "\<lambda>i. 0" and img = "PilImage 416 416 [(''cavity'', 62, 104, 41, 41)]" and
      anns = "[\<lparr>class_id = 0, x_center = 1 / 5, y_center = 3 / 10, box_width = 1 / 10,
            box_height = 1 / 10\<rparr>]" and g'' = "\<lambda>i. 0"]
  from t [THEN conjunct1, THEN mp, OF ev2]
  have "\<forall>a \<in> set [\<lparr>class_id = 0, x_center = 1 / 5, y_center = 3 / 10, box_width = 1 / 10,
            box_height = 1 / 10\<rparr>]. sampled a \<and> box_edges_inside a"
    by (elim conjE)
  then show ?thesis using ev2 ev3 by simp
qed

text \<open>
  C10. In the fixed-box generator, for every condition other than \<open>misaligned\<close> and
  \<open>chipped\<close>, \<open>create_annotation\<close> returns the class index followed by the constant text
  \<open>0.500000 0.450000 0.600000 0.300000\<close>, whatever the state of the random module and
  whatever the image path; the random state is left as it was.
\<close>

theorem create_annotation_constant:
  assumes "condition \<noteq> ''misaligned''" and "condition \<noteq> ''chipped''"
  shows "create_annotation image_path condition cid g =
           (str_int cid @ '' 0.500000 0.450000 0.600000 0.300000'', g)"
  using assms
  by (simp add: create_annotation_def annotation_box_def render_annotation_def
      fmt_6f_half fmt_6f_y fmt_6f_w fmt_6f_h)

theorem create_annotation_constant_witness:
  "''cavity'' \<noteq> ''misaligned'' \<and> ''cavity'' \<noteq> ''chipped'' \<and>
   create_annotation ''out/images/train/train_0000.jpg'' ''cavity'' 0 (\<lambda>i. 7 * i + 3) =
     (''0 0.500000 0.450000 0.600000 0.300000'', \<lambda>i. 7 * i + 3) \<and>
   create_annotation [] ''cavity'' 0 (\<lambda>i. 0) =
     (''0 0.500000 0.450000 0.600000 0.300000'', \<lambda>i. 0)"
  using create_annotation_constant [of "''cavity''" "''out/images/train/train_0000.jpg''" 0 "\<lambda>i. 7 * i + 3"]
    create_annotation_constant [of "''cavity''" "[]" 0 "\<lambda>i. 0"]
  by (simp add: eval_text)

end
